theory Spec2Isabelle
  imports Complex_Main
begin

section \<open>Conventions of the embedding\<close>

text \<open>
  The theory embeds \<^verbatim>\<open>src/backend/scheduler_engine.py\<close>.

  \<^item> A \<^verbatim>\<open>datetime\<close> is an \<open>int\<close>: microseconds since a fixed epoch; a \<^verbatim>\<open>timedelta\<close> is an
    \<open>int\<close> number of microseconds. Subtraction, addition and comparison are exact, as in Python.
  \<^item> A Python \<^verbatim>\<open>float\<close> is a \<open>real\<close>: floating-point rounding is not modelled. The only
    rounding kept is the one \<^verbatim>\<open>timedelta(minutes=x)\<close> and \<^verbatim>\<open>round(x, 2)\<close> perform on purpose.
  \<^item> The random module is an explicit stream of raw draws that every function consuming
    randomness takes and returns.
  \<^item> \<^verbatim>\<open>datetime.now()\<close> is an explicit stream of clock readings.
  \<^item> A method that mutates \<^verbatim>\<open>self\<close> returns the updated record; a method that can raise
    returns the exception as a value together with the state it leaves behind.
\<close>

type_synonym datetime = int
type_synonym timedelta = int

datatype py_error =
    ValueError string
  | KeyError string
  | IndexError
  | ZeroDivisionError

subsection \<open>Rounding\<close>

definition round_half_even :: "real \<Rightarrow> int" where
  "round_half_even x =
     (let f = \<lfloor>x\<rfloor>; r = x - of_int f
      in if r < 1 / 2 then f
         else if 1 / 2 < r then f + 1
         else if even f then f else f + 1)"

text \<open>\<^verbatim>\<open>timedelta(minutes=x)\<close>: the duration rounded to whole microseconds.\<close>

definition timedelta_minutes :: "real \<Rightarrow> timedelta" where
  "timedelta_minutes x = round_half_even (x * 60000000)"

text \<open>\<^verbatim>\<open>td.total_seconds() / 60\<close>.\<close>

definition total_minutes :: "timedelta \<Rightarrow> real" where
  "total_minutes d = of_int d / 1000000 / 60"

text \<open>\<^verbatim>\<open>round(x, 2)\<close>.\<close>

definition round2 :: "real \<Rightarrow> real" where
  "round2 x = of_int (round_half_even (x * 100)) / 100"

subsection \<open>The random source\<close>

type_synonym rng = "nat \<Rightarrow> nat"

definition rng_head :: "rng \<Rightarrow> nat" where
  "rng_head g = g 0"

definition rng_tail :: "rng \<Rightarrow> rng" where
  "rng_tail g = (\<lambda>i. g (Suc i))"

text \<open>
  \<^verbatim>\<open>random.choice(seq)\<close> is \<^verbatim>\<open>seq[randbelow(len(seq))]\<close>. Every call site of the source passes
  a non-empty sequence (a literal table, or a list guarded by \<^verbatim>\<open>if candidates\<close>).
\<close>

definition random_choice :: "'a list \<Rightarrow> rng \<Rightarrow> 'a \<times> rng" where
  "random_choice xs g = (xs ! (rng_head g mod length xs), rng_tail g)"

text \<open>\<^verbatim>\<open>random.random()\<close> is a 53-bit integer divided by \<open>2 ^ 53\<close>; \<^verbatim>\<open>random.uniform(a, b)\<close> is
  \<^verbatim>\<open>a + (b - a) * random()\<close>.\<close>

definition random_random :: "rng \<Rightarrow> real \<times> rng" where
  "random_random g = (real (rng_head g mod 2 ^ 53) / 2 ^ 53, rng_tail g)"

definition random_uniform :: "real \<Rightarrow> real \<Rightarrow> rng \<Rightarrow> real \<times> rng" where
  "random_uniform a b g = (let (u, g') = random_random g in (a + (b - a) * u, g'))"

section \<open>Configuration\<close>

definition PRIORITY_WEIGHTS_urgency :: real where
  "PRIORITY_WEIGHTS_urgency = 0.40"

definition PRIORITY_WEIGHTS_requester_type :: real where
  "PRIORITY_WEIGHTS_requester_type = 0.25"

definition PRIORITY_WEIGHTS_waiting_time :: real where
  "PRIORITY_WEIGHTS_waiting_time = 0.20"

definition PRIORITY_WEIGHTS_document_type :: real where
  "PRIORITY_WEIGHTS_document_type = 0.15"

definition REQUESTER_PRIORITY :: "(string \<times> int) list" where
  "REQUESTER_PRIORITY =
     [(''Graduating Student'', 10),
      (''Enrolling Student'', 8),
      (''Faculty'', 7),
      (''Alumni'', 5),
      (''Regular Student'', 3)]"

definition DOCUMENT_COMPLEXITY :: "(string \<times> real) list" where
  "DOCUMENT_COMPLEXITY =
     [(''Transcript of Records'', 1.5),
      (''Certificate of Enrollment'', 1.0),
      (''Honorable Dismissal'', 1.2),
      (''Certification'', 0.8)]"

definition COLLEGES :: "string list" where
  "COLLEGES = [''COE'', ''CAS'', ''CBA'', ''CEGE'', ''CS'', ''IE'']"

text \<open>\<^verbatim>\<open>d.get(k, default)\<close>.\<close>

definition dict_get :: "('k \<times> 'v) list \<Rightarrow> 'k \<Rightarrow> 'v \<Rightarrow> 'v" where
  "dict_get d k dflt = (case map_of d k of Some v \<Rightarrow> v | None \<Rightarrow> dflt)"

section \<open>Data models\<close>

record DocumentRequest =
  request_id :: string
  college :: string
  document_type :: string
  urgency :: int
  requester_type :: string
  submission_time :: datetime
  priority_score :: real
  assignment_time :: "datetime option"
  completion_time :: "datetime option"
  assigned_staff :: "string option"

record StaffMember =
  staff_id :: string
  name :: string
  college_affiliation :: string
  next_available_time :: datetime
  total_assigned :: int
  is_available :: bool

subsection \<open>\<^verbatim>\<open>DocumentRequest.calculate_priority\<close>\<close>

definition urgency_norm :: "DocumentRequest \<Rightarrow> real" where
  "urgency_norm r = of_int (urgency r) / 10"

definition requester_norm :: "DocumentRequest \<Rightarrow> real" where
  "requester_norm r = of_int (dict_get REQUESTER_PRIORITY (requester_type r) 3) / 10"

definition waiting_minutes :: "DocumentRequest \<Rightarrow> datetime \<Rightarrow> real" where
  "waiting_minutes r current_time = total_minutes (current_time - submission_time r)"

definition waiting_norm :: "DocumentRequest \<Rightarrow> datetime \<Rightarrow> real" where
  "waiting_norm r current_time = min (waiting_minutes r current_time / 120) 1"

definition doc_complexity :: "DocumentRequest \<Rightarrow> real" where
  "doc_complexity r = dict_get DOCUMENT_COMPLEXITY (document_type r) 1"

definition doc_norm :: "DocumentRequest \<Rightarrow> real" where
  "doc_norm r = 1 / doc_complexity r"

text \<open>The method returns the score and writes it onto the request: the pair of the returned
  value and the request after the call.\<close>

definition calculate_priority :: "DocumentRequest \<Rightarrow> datetime \<Rightarrow> real \<times> DocumentRequest" where
  "calculate_priority r current_time =
     (let score = PRIORITY_WEIGHTS_urgency * urgency_norm r
                + PRIORITY_WEIGHTS_requester_type * requester_norm r
                + PRIORITY_WEIGHTS_waiting_time * waiting_norm r current_time
                + PRIORITY_WEIGHTS_document_type * doc_norm r
      in (score, r\<lparr>priority_score := score\<rparr>))"

definition get_waiting_time_minutes :: "DocumentRequest \<Rightarrow> real" where
  "get_waiting_time_minutes r =
     (case assignment_time r of
        Some a \<Rightarrow> total_minutes (a - submission_time r)
      | None \<Rightarrow> 0)"

definition get_turnaround_time_minutes :: "DocumentRequest \<Rightarrow> real" where
  "get_turnaround_time_minutes r =
     (case completion_time r of
        Some c \<Rightarrow> total_minutes (c - submission_time r)
      | None \<Rightarrow> 0)"

subsection \<open>\<^verbatim>\<open>StaffMember\<close>\<close>

definition can_accept :: "StaffMember \<Rightarrow> datetime \<Rightarrow> bool" where
  "can_accept s current_time \<longleftrightarrow> is_available s \<and> next_available_time s \<le> current_time"

definition assign_request :: "StaffMember \<Rightarrow> datetime \<Rightarrow> timedelta \<Rightarrow> StaffMember" where
  "assign_request s atime processing_time =
     s\<lparr>total_assigned := total_assigned s + 1,
       next_available_time := atime + processing_time\<rparr>"

section \<open>Allocators\<close>

text \<open>
  An allocator returns a reference to a member of the shared roster, or \<^verbatim>\<open>None\<close>. The
  reference is the member's position in \<^verbatim>\<open>staff_pool\<close>: the driver mutates the member
  through it. A list comprehension over the roster is the list of the positions it keeps.
\<close>

definition staff_where :: "(StaffMember \<Rightarrow> bool) \<Rightarrow> StaffMember list \<Rightarrow> nat list" where
  "staff_where P pool = filter (\<lambda>i. P (pool ! i)) [0..<length pool]"

text \<open>\<^verbatim>\<open>min(seq, key=f)\<close>: the first element whose key is minimal.\<close>

fun min_from :: "('a \<Rightarrow> 'k::linorder) \<Rightarrow> 'a \<Rightarrow> 'a list \<Rightarrow> 'a" where
  "min_from f b [] = b"
| "min_from f b (x # xs) = min_from f (if f x < f b then x else b) xs"

definition min_by_key :: "('a \<Rightarrow> 'k::linorder) \<Rightarrow> 'a list \<Rightarrow> 'a option" where
  "min_by_key f xs = (case xs of [] \<Rightarrow> None | x # ys \<Rightarrow> Some (min_from f x ys))"

datatype allocator_kind =
    CollegeBasedAllocator
  | WorkloadBasedAllocator
  | PooledAllocator
  | QuotaFreeAllocator

definition CollegeBased_assign ::
  "StaffMember list \<Rightarrow> DocumentRequest \<Rightarrow> datetime \<Rightarrow> rng \<Rightarrow> nat option \<times> rng" where
  "CollegeBased_assign pool request stime g =
     (let candidates =
            staff_where (\<lambda>s. college_affiliation s = college request \<and> is_available s) pool
      in if candidates \<noteq> []
         then (let (i, g') = random_choice candidates g in (Some i, g'))
         else (None, g))"

definition WorkloadBased_assign ::
  "StaffMember list \<Rightarrow> DocumentRequest \<Rightarrow> datetime \<Rightarrow> nat option" where
  "WorkloadBased_assign pool request stime =
     (let college_staff =
            staff_where (\<lambda>s. college_affiliation s = college request \<and> is_available s) pool
      in if college_staff \<noteq> []
         then min_by_key (\<lambda>i. total_assigned (pool ! i)) college_staff
         else (let available = staff_where is_available pool
               in if available \<noteq> []
                  then min_by_key (\<lambda>i. total_assigned (pool ! i)) available
                  else None))"

definition Pooled_assign ::
  "StaffMember list \<Rightarrow> DocumentRequest \<Rightarrow> datetime \<Rightarrow> nat option" where
  "Pooled_assign pool request stime =
     (let available = staff_where is_available pool
      in if available \<noteq> []
         then min_by_key (\<lambda>i. max (next_available_time (pool ! i)) stime) available
         else None)"

definition QuotaFree_assign ::
  "StaffMember list \<Rightarrow> DocumentRequest \<Rightarrow> datetime \<Rightarrow> nat option" where
  "QuotaFree_assign pool request stime =
     (let available = staff_where is_available pool
      in if available \<noteq> []
         then min_by_key (\<lambda>i. max (next_available_time (pool ! i)) stime) available
         else None)"

text \<open>Dynamic dispatch of \<^verbatim>\<open>self.allocator.assign\<close>.\<close>

fun assign ::
  "allocator_kind \<Rightarrow> StaffMember list \<Rightarrow> DocumentRequest \<Rightarrow> datetime \<Rightarrow> rng
     \<Rightarrow> nat option \<times> rng" where
  "assign CollegeBasedAllocator pool request stime g = CollegeBased_assign pool request stime g"
| "assign WorkloadBasedAllocator pool request stime g = (WorkloadBased_assign pool request stime, g)"
| "assign PooledAllocator pool request stime g = (Pooled_assign pool request stime, g)"
| "assign QuotaFreeAllocator pool request stime g = (QuotaFree_assign pool request stime, g)"

text \<open>
  The list an allocator picks from, that is, the list whose emptiness makes it return
  \<^verbatim>\<open>None\<close>: \<^verbatim>\<open>candidates\<close> for the college-based allocator, \<^verbatim>\<open>college_staff\<close> or else
  \<^verbatim>\<open>available\<close> for the workload-based one, \<^verbatim>\<open>available\<close> for the other two.
\<close>

fun candidate_list :: "allocator_kind \<Rightarrow> StaffMember list \<Rightarrow> DocumentRequest \<Rightarrow> nat list" where
  "candidate_list CollegeBasedAllocator pool request =
     staff_where (\<lambda>s. college_affiliation s = college request \<and> is_available s) pool"
| "candidate_list WorkloadBasedAllocator pool request =
     (let college_staff =
            staff_where (\<lambda>s. college_affiliation s = college request \<and> is_available s) pool
      in if college_staff \<noteq> [] then college_staff else staff_where is_available pool)"
| "candidate_list PooledAllocator pool request = staff_where is_available pool"
| "candidate_list QuotaFreeAllocator pool request = staff_where is_available pool"

section \<open>The simulation engine\<close>

record SimulationEngine =
  scheduler_type :: string
  staff_pool :: "StaffMember list"
  allocator :: allocator_kind
  completed :: "DocumentRequest list"
  start_time :: datetime
  scenario :: string

text \<open>
  \<^verbatim>\<open>str.upper()\<close> on strings of ASCII characters: the letters a to z are mapped to A to Z.
  Python maps characters beyond ASCII by the Unicode case mapping, which this definition does
  not contain; it is the program's function on ASCII strings only. Below it is applied to
  ASCII literals, and a statement about an arbitrary scheduler kind is phrased with the value
  that \<^verbatim>\<open>upper()\<close> returned (see \<open>engine_of_kind\<close>).
\<close>

definition upper_char :: "char \<Rightarrow> char" where
  "upper_char c =
     (if (97::nat) \<le> of_char c \<and> of_char c \<le> (122::nat)
      then char_of (of_char c - (32::nat)) else c)"

definition upper :: "string \<Rightarrow> string" where
  "upper s = map upper_char s"

text \<open>The constructor of \<^verbatim>\<open>StaffMember\<close> with its \<^verbatim>\<open>__post_init__\<close>: \<open>now\<close> is the clock
  reading taken there.\<close>

definition new_StaffMember :: "string \<Rightarrow> string \<Rightarrow> string \<Rightarrow> datetime \<Rightarrow> StaffMember" where
  "new_StaffMember sid nm col now =
     \<lparr>staff_id = sid, name = nm, college_affiliation = col,
      next_available_time = now, total_assigned = 0, is_available = True\<rparr>"

definition init_staff :: "(nat \<Rightarrow> datetime) \<Rightarrow> StaffMember list" where
  "init_staff clock =
     [new_StaffMember ''STAFF001'' ''Maria Santos'' ''COE'' (clock 0),
      new_StaffMember ''STAFF002'' ''Juan Dela Cruz'' ''CAS'' (clock 1),
      new_StaffMember ''STAFF003'' ''Ana Reyes'' ''CBA'' (clock 2),
      new_StaffMember ''STAFF004'' ''Carlos Lim'' ''CEGE'' (clock 3),
      new_StaffMember ''STAFF005'' ''Luisa Gomez'' ''CS'' (clock 4),
      new_StaffMember ''STAFF006'' ''Ramon Aquino'' ''IE'' (clock 5)]"

definition create_allocator :: "string \<Rightarrow> allocator_kind" where
  "create_allocator allocator_type =
     dict_get
       [(''college_based'', CollegeBasedAllocator),
        (''workload_based'', WorkloadBasedAllocator),
        (''pooled'', PooledAllocator),
        (''quota_free'', QuotaFreeAllocator)]
       allocator_type CollegeBasedAllocator"

text \<open>
  \<^verbatim>\<open>SimulationEngine.__init__\<close>, in two parts. \<open>engine_of_kind\<close> is the body of the constructor
  once \<^verbatim>\<open>scheduler_type.upper()\<close> has been evaluated: \<open>kind\<close> is the string that call returned,
  and \<open>clock k\<close> is the \<open>k\<close>-th reading of \<^verbatim>\<open>datetime.now()\<close>. \<open>engine_init\<close> is the whole
  constructor.
\<close>

definition engine_of_kind :: "string \<Rightarrow> string \<Rightarrow> (nat \<Rightarrow> datetime) \<Rightarrow> SimulationEngine" where
  "engine_of_kind kind alloc clock =
     \<lparr>scheduler_type = kind,
      staff_pool = init_staff clock,
      allocator = create_allocator alloc,
      completed = [],
      start_time = clock 6,
      scenario = ''baseline''\<rparr>"

definition engine_init :: "string \<Rightarrow> string \<Rightarrow> (nat \<Rightarrow> datetime) \<Rightarrow> SimulationEngine" where
  "engine_init sched alloc clock = engine_of_kind (upper sched) alloc clock"

subsection \<open>\<^verbatim>\<open>_generate_requests\<close>\<close>

text \<open>The format \<^verbatim>\<open>f"REQ{i:04d}"\<close>: the decimal digits of \<open>i\<close>, padded with zeros on the left to
  four characters.\<close>

definition digit_char :: "nat \<Rightarrow> char" where
  "digit_char d = char_of (48 + d)"

fun decimal :: "nat \<Rightarrow> string" where
  "decimal n = (if n < 10 then [digit_char n] else decimal (n div 10) @ [digit_char (n mod 10)])"

definition zero_pad :: "nat \<Rightarrow> string \<Rightarrow> string" where
  "zero_pad w s = replicate (w - length s) CHR ''0'' @ s"

definition format_request_id :: "nat \<Rightarrow> string" where
  "format_request_id i = ''REQ'' @ zero_pad 4 (decimal i)"

definition total_requests_of :: "string \<Rightarrow> nat" where
  "total_requests_of scen =
     dict_get
       [(''baseline'', 80), (''staff_absence'', 70), (''peak_urgency'', 100),
        (''workload_imbalance'', 90)]
       scen 80"

definition urgency_range_of :: "string \<Rightarrow> int list" where
  "urgency_range_of scen = (if scen = ''peak_urgency'' then [7, 8, 9, 10] else [3, 4, 5, 6, 7])"

definition colleges_of :: "string \<Rightarrow> string list" where
  "colleges_of scen =
     (if scen = ''workload_imbalance'' then replicate 7 ''COE'' @ COLLEGES else COLLEGES)"

definition doc_types :: "string list" where
  "doc_types = map fst DOCUMENT_COMPLEXITY"

definition requester_types :: "string list" where
  "requester_types = map fst REQUESTER_PRIORITY"

text \<open>One iteration of the generating loop, for index \<open>i\<close>.\<close>

definition make_request ::
  "datetime \<Rightarrow> int \<Rightarrow> nat \<Rightarrow> string list \<Rightarrow> int list \<Rightarrow> nat \<Rightarrow> rng \<Rightarrow> DocumentRequest \<times> rng" where
  "make_request start duration_min total_requests colleges urgency_range i g =
     (let time_offset = timedelta_minutes (real i * (of_int duration_min / real total_requests));
          stime = start + time_offset;
          (col, g1) = random_choice colleges g;
          (doc, g2) = random_choice doc_types g1;
          (urg, g3) = random_choice urgency_range g2;
          (rt, g4) = random_choice requester_types g3
      in (\<lparr>request_id = format_request_id i, college = col, document_type = doc,
           urgency = urg, requester_type = rt, submission_time = stime,
           priority_score = 0, assignment_time = None, completion_time = None,
           assigned_staff = None\<rparr>, g4))"

fun make_requests ::
  "datetime \<Rightarrow> int \<Rightarrow> nat \<Rightarrow> string list \<Rightarrow> int list \<Rightarrow> nat list \<Rightarrow> rng
     \<Rightarrow> DocumentRequest list \<times> rng" where
  "make_requests start duration_min total_requests colleges urgency_range [] g = ([], g)"
| "make_requests start duration_min total_requests colleges urgency_range (i # idxs) g =
     (let (r, g1) = make_request start duration_min total_requests colleges urgency_range i g;
          (rs, g2) = make_requests start duration_min total_requests colleges urgency_range idxs g1
      in (r # rs, g2))"

text \<open>The scenario label is written first; \<^verbatim>\<open>self.staff_pool[2]\<close> raises \<^verbatim>\<open>IndexError\<close> on a
  roster of fewer than three members.\<close>

definition generate_requests ::
  "SimulationEngine \<Rightarrow> string \<Rightarrow> int \<Rightarrow> rng
     \<Rightarrow> (py_error + DocumentRequest list) \<times> SimulationEngine \<times> rng" where
  "generate_requests e scen duration_min g =
     (let e1 = e\<lparr>scenario := scen\<rparr>;
          total_requests = total_requests_of scen
      in if scen = ''staff_absence'' \<and> length (staff_pool e1) \<le> 2 then (Inl IndexError, e1, g)
         else
           (let e2 = (if scen = ''staff_absence''
                      then e1\<lparr>staff_pool :=
                             (staff_pool e1)[2 := (staff_pool e1 ! 2)\<lparr>is_available := False\<rparr>]\<rparr>
                      else e1);
                (requests, g') =
                   make_requests (start_time e2) duration_min total_requests (colleges_of scen)
                     (urgency_range_of scen) [0..<total_requests] g
            in (Inr requests, e2, g')))"

subsection \<open>The processing loop of \<^verbatim>\<open>run\<close>\<close>

text \<open>
  The body of \<^verbatim>\<open>for req in sorted_requests\<close>. \<^verbatim>\<open>DOCUMENT_COMPLEXITY[req.document_type]\<close>
  raises \<^verbatim>\<open>KeyError\<close> on an unknown document type, after the request object has been written
  to and before the roster and the completed list are.
\<close>

definition process_request ::
  "SimulationEngine \<Rightarrow> datetime \<Rightarrow> DocumentRequest \<Rightarrow> rng
     \<Rightarrow> (py_error + unit) \<times> SimulationEngine \<times> rng" where
  "process_request e end_time req g =
     (if end_time < submission_time req then (Inr (), e, g)
      else
        (let (staff, g1) = assign (allocator e) (staff_pool e) req (submission_time req) g
         in case staff of
              None \<Rightarrow> (Inr (), e, g1)
            | Some i \<Rightarrow>
                (let s = staff_pool e ! i;
                     atime = max (submission_time req) (next_available_time s);
                     req1 = req\<lparr>assignment_time := Some atime,
                                assigned_staff := Some (staff_id s)\<rparr>
                 in case map_of DOCUMENT_COMPLEXITY (document_type req1) of
                      None \<Rightarrow> (Inl (KeyError (document_type req1)), e, g1)
                    | Some c \<Rightarrow>
                        (let base_mins = c * 3;
                             (u, g2) = random_uniform (base_mins * 0.8) (base_mins * 1.2) g1;
                             processing_time = timedelta_minutes u;
                             pool' = (staff_pool e)[i := assign_request s atime processing_time];
                             req2 = req1\<lparr>completion_time := Some (atime + processing_time)\<rparr>
                         in (Inr (), e\<lparr>staff_pool := pool', completed := completed e @ [req2]\<rparr>,
                             g2)))))"

fun process_requests ::
  "SimulationEngine \<Rightarrow> datetime \<Rightarrow> DocumentRequest list \<Rightarrow> rng
     \<Rightarrow> (py_error + unit) \<times> SimulationEngine \<times> rng" where
  "process_requests e end_time [] g = (Inr (), e, g)"
| "process_requests e end_time (req # reqs) g =
     (case process_request e end_time req g of
        (Inl err, e', g') \<Rightarrow> (Inl err, e', g')
      | (Inr u, e', g') \<Rightarrow> process_requests e' end_time reqs g')"

subsection \<open>\<^verbatim>\<open>_calculate_metrics\<close>\<close>

record Metrics =
  avg_waiting_time :: real
  avg_turnaround :: real
  throughput :: real
  total_processed :: int
  staff_load :: "(string \<times> int) list"
  scenario_label :: string

text \<open>A dictionary literal or comprehension is an association list in insertion order; writing
  an existing key replaces its value in place.\<close>

fun dict_set :: "('k \<times> 'v) list \<Rightarrow> 'k \<Rightarrow> 'v \<Rightarrow> ('k \<times> 'v) list" where
  "dict_set [] k v = [(k, v)]"
| "dict_set ((k', v') # d) k v = (if k' = k then (k, v) # d else (k', v') # dict_set d k v)"

definition staff_load_of :: "StaffMember list \<Rightarrow> (string \<times> int) list" where
  "staff_load_of pool = foldl (\<lambda>d s. dict_set d (staff_id s) (total_assigned s)) [] pool"

text \<open>\<^verbatim>\<open>len(self.completed) / duration_hours\<close> raises \<^verbatim>\<open>ZeroDivisionError\<close> when the duration
  is zero.\<close>

definition calculate_metrics :: "SimulationEngine \<Rightarrow> int \<Rightarrow> py_error + Metrics" where
  "calculate_metrics e duration_min =
     (if completed e = [] then
        Inr \<lparr>avg_waiting_time = 0, avg_turnaround = 0, throughput = 0, total_processed = 0,
             staff_load = staff_load_of (staff_pool e), scenario_label = scenario e\<rparr>
      else
        (let waiting_times = map get_waiting_time_minutes (completed e);
             turnaround_times = map get_turnaround_time_minutes (completed e);
             duration_hours = (of_int duration_min :: real) / 60
         in if duration_hours = 0 then Inl ZeroDivisionError
            else
              (let tp = real (length (completed e)) / duration_hours
               in Inr \<lparr>avg_waiting_time =
                          round2 (sum_list waiting_times / real (length waiting_times)),
                        avg_turnaround =
                          round2 (sum_list turnaround_times / real (length turnaround_times)),
                        throughput = round2 tp,
                        total_processed = int (length (completed e)),
                        staff_load = staff_load_of (staff_pool e),
                        scenario_label = scenario e\<rparr>)))"

subsection \<open>\<^verbatim>\<open>run\<close>\<close>

text \<open>The result of a call: what it returns or raises, the engine after the call, and the
  random source after the call.\<close>

definition score_all :: "datetime \<Rightarrow> DocumentRequest list \<Rightarrow> DocumentRequest list" where
  "score_all simulation_start requests =
     map (\<lambda>req. snd (calculate_priority req simulation_start)) requests"

definition process_and_report ::
  "SimulationEngine \<Rightarrow> datetime \<Rightarrow> int \<Rightarrow> DocumentRequest list \<Rightarrow> rng
     \<Rightarrow> (py_error + Metrics) \<times> SimulationEngine \<times> rng" where
  "process_and_report e end_time duration_min sorted_requests g =
     (case process_requests e end_time sorted_requests g of
        (Inl err, e', g') \<Rightarrow> (Inl err, e', g')
      | (Inr u, e', g') \<Rightarrow> (calculate_metrics e' duration_min, e', g'))"

definition run ::
  "SimulationEngine \<Rightarrow> string \<Rightarrow> int \<Rightarrow> rng \<Rightarrow> (py_error + Metrics) \<times> SimulationEngine \<times> rng" where
  "run e scen duration_min g =
     (case generate_requests e scen duration_min g of
        (Inl err, e1, g1) \<Rightarrow> (Inl err, e1, g1)
      | (Inr requests, e1, g1) \<Rightarrow>
          (let end_time = start_time e1 + timedelta_minutes (of_int duration_min);
               simulation_start = start_time e1;
               requests1 = (if scheduler_type e1 = ''WEIGHTED''
                            then score_all simulation_start requests else requests)
           in if scheduler_type e1 = ''FCFS'' then
                process_and_report e1 end_time duration_min
                  (sort_key submission_time requests1) g1
              else if scheduler_type e1 = ''WEIGHTED'' then
                process_and_report e1 end_time duration_min
                  (sort_key (\<lambda>r. - priority_score r) requests1) g1
              else (Inl (ValueError (''Unknown scheduler type: '' @ scheduler_type e1)), e1, g1)))"

section \<open>Relations used in the statements and proofs\<close>

text \<open>A request carries its three outcome fields, with the timestamps in order.\<close>

definition stamped :: "DocumentRequest \<Rightarrow> bool" where
  "stamped r =
     (case assignment_time r of
        None \<Rightarrow> False
      | Some a \<Rightarrow>
          (case completion_time r of
             None \<Rightarrow> False
           | Some c \<Rightarrow> assigned_staff r \<noteq> None \<and> submission_time r \<le> a \<and> a \<le> c))"

text \<open>
  \<open>stamped_copy r r'\<close>: the request \<open>r'\<close> is the request \<open>r\<close> with its three outcome fields
  written, and nothing else changed.
\<close>

definition stamped_copy :: "DocumentRequest \<Rightarrow> DocumentRequest \<Rightarrow> bool" where
  "stamped_copy r r' \<longleftrightarrow>
     stamped r'
     \<and> r' = r\<lparr>assignment_time := assignment_time r', assigned_staff := assigned_staff r',
              completion_time := completion_time r'\<rparr>"

text \<open>
  \<open>served e end_time r\<close>: the request is within the horizon and the allocator of \<open>e\<close> has a
  candidate for it on the roster of \<open>e\<close>.
\<close>

definition served :: "SimulationEngine \<Rightarrow> datetime \<Rightarrow> DocumentRequest \<Rightarrow> bool" where
  "served e end_time r \<longleftrightarrow>
     submission_time r \<le> end_time \<and> candidate_list (allocator e) (staff_pool e) r \<noteq> []"

text \<open>
  What the processing loop may change between two engine states: it appends stamped requests
  to the completed list and raises the counts of roster members, by as much in total as it
  appends; everything else stays.
\<close>

definition advances :: "SimulationEngine \<Rightarrow> SimulationEngine \<Rightarrow> bool" where
  "advances e e' \<longleftrightarrow>
     scheduler_type e' = scheduler_type e \<and> allocator e' = allocator e
     \<and> start_time e' = start_time e \<and> scenario e' = scenario e
     \<and> map staff_id (staff_pool e') = map staff_id (staff_pool e)
     \<and> map college_affiliation (staff_pool e') = map college_affiliation (staff_pool e)
     \<and> map is_available (staff_pool e') = map is_available (staff_pool e)
     \<and> list_all2 (\<lambda>s s'. total_assigned s \<le> total_assigned s') (staff_pool e) (staff_pool e')
     \<and> (\<exists>new. completed e' = completed e @ new \<and> list_all stamped new
            \<and> sum_list (map total_assigned (staff_pool e'))
                = sum_list (map total_assigned (staff_pool e)) + int (length new))"

section \<open>The priority score\<close>

lemmas priority_defs =
  calculate_priority_def urgency_norm_def requester_norm_def waiting_norm_def
  waiting_minutes_def total_minutes_def doc_norm_def doc_complexity_def
  PRIORITY_WEIGHTS_urgency_def PRIORITY_WEIGHTS_requester_type_def
  PRIORITY_WEIGHTS_waiting_time_def PRIORITY_WEIGHTS_document_type_def

lemma requester_priority_bounds:
  "3 \<le> dict_get REQUESTER_PRIORITY t 3 \<and> dict_get REQUESTER_PRIORITY t 3 \<le> 10"
  by (simp add: dict_get_def REQUESTER_PRIORITY_def)

lemma requester_norm_bounds: "0 \<le> requester_norm r \<and> requester_norm r \<le> 1"
  using requester_priority_bounds [of "requester_type r"] by (simp add: requester_norm_def)

lemma doc_norm_bounds: "0 \<le> doc_norm r \<and> doc_norm r \<le> 5 / 4"
  by (simp add: doc_norm_def doc_complexity_def dict_get_def DOCUMENT_COMPLEXITY_def)

lemma doc_norm_le_1: "1 \<le> doc_complexity r \<Longrightarrow> doc_norm r \<le> 1"
  by (simp add: doc_norm_def)

lemma waiting_norm_bounds:
  "submission_time r \<le> now \<Longrightarrow> 0 \<le> waiting_norm r now \<and> waiting_norm r now \<le> 1"
  by (simp add: waiting_norm_def waiting_minutes_def total_minutes_def)

lemma urgency_norm_bounds:
  "0 \<le> urgency r \<Longrightarrow> urgency r \<le> 10 \<Longrightarrow> 0 \<le> urgency_norm r \<and> urgency_norm r \<le> 1"
  by (simp add: urgency_norm_def)

lemma score_eq:
  "fst (calculate_priority r now) =
     0.40 * urgency_norm r + 0.25 * requester_norm r + 0.20 * waiting_norm r now
       + 0.15 * doc_norm r"
  by (simp add: calculate_priority_def Let_def PRIORITY_WEIGHTS_urgency_def
      PRIORITY_WEIGHTS_requester_type_def PRIORITY_WEIGHTS_waiting_time_def
      PRIORITY_WEIGHTS_document_type_def)

text \<open>
  Claim C1, as amended. For a request with urgency between 0 and 10 whose submission time is
  not after the current time, \<^verbatim>\<open>calculate_priority\<close> returns the weighted sum
  \<open>0.40 * (urgency / 10) + 0.25 * (requester weight / 10) + 0.20 * min (minutes waited / 120) 1
  + 0.15 * (1 / complexity)\<close>, and this score lies between 0 and 1.0375 (\<open>83 / 80\<close>). It is at
  most 1 whenever the complexity multiplier of the document type is at least 1. The multiplier
  0.8 of \<^verbatim>\<open>'Certification'\<close> makes the last factor 1.25, so the score can exceed 1.
\<close>

theorem calculate_priority_range:
  assumes "submission_time r \<le> now" and "0 \<le> urgency r" and "urgency r \<le> 10"
  shows "fst (calculate_priority r now) =
           0.40 * (of_int (urgency r) / 10)
           + 0.25 * (of_int (dict_get REQUESTER_PRIORITY (requester_type r) 3) / 10)
           + 0.20 * min (total_minutes (now - submission_time r) / 120) 1
           + 0.15 * (1 / dict_get DOCUMENT_COMPLEXITY (document_type r) 1)
         \<and> 0 \<le> fst (calculate_priority r now)
         \<and> fst (calculate_priority r now) \<le> 83 / 80
         \<and> (1 \<le> dict_get DOCUMENT_COMPLEXITY (document_type r) 1
              \<longrightarrow> fst (calculate_priority r now) \<le> 1)"
proof -
  have u: "0 \<le> urgency_norm r \<and> urgency_norm r \<le> 1"
    using assms by (simp add: urgency_norm_bounds)
  have q: "0 \<le> requester_norm r \<and> requester_norm r \<le> 1"
    by (rule requester_norm_bounds)
  have w: "0 \<le> waiting_norm r now \<and> waiting_norm r now \<le> 1"
    using assms by (simp add: waiting_norm_bounds)
  have d: "0 \<le> doc_norm r \<and> doc_norm r \<le> 5 / 4"
    by (rule doc_norm_bounds)
  have d1: "1 \<le> dict_get DOCUMENT_COMPLEXITY (document_type r) 1 \<longrightarrow> doc_norm r \<le> 1"
    using doc_norm_le_1 [of r] by (simp add: doc_complexity_def)
  have e: "fst (calculate_priority r now) =
           0.40 * (of_int (urgency r) / 10)
           + 0.25 * (of_int (dict_get REQUESTER_PRIORITY (requester_type r) 3) / 10)
           + 0.20 * min (total_minutes (now - submission_time r) / 120) 1
           + 0.15 * (1 / dict_get DOCUMENT_COMPLEXITY (document_type r) 1)"
    by (simp add: priority_defs Let_def)
  have lo: "0 \<le> fst (calculate_priority r now)"
    unfolding score_eq using u q w d by simp
  have hi: "fst (calculate_priority r now) \<le> 83 / 80"
    unfolding score_eq using u q w d by simp
  have hi1: "1 \<le> dict_get DOCUMENT_COMPLEXITY (document_type r) 1
              \<longrightarrow> fst (calculate_priority r now) \<le> 1"
    unfolding score_eq using u q w d1 by auto
  from e lo hi hi1 show ?thesis by blast
qed

text \<open>The amended claim at one request: urgency 5, a faculty requester, a transcript, sixty
  minutes after submission. The score is 0.575.\<close>

theorem calculate_priority_range_witness:
  "submission_time
     \<lparr>request_id = ''REQ0001'', college = ''CAS'', document_type = ''Transcript of Records'',
      urgency = 5, requester_type = ''Faculty'', submission_time = 0,
      priority_score = 0, assignment_time = None, completion_time = None,
      assigned_staff = None\<rparr> \<le> 3600000000
   \<and> fst (calculate_priority
       \<lparr>request_id = ''REQ0001'', college = ''CAS'', document_type = ''Transcript of Records'',
        urgency = 5, requester_type = ''Faculty'', submission_time = 0,
        priority_score = 0, assignment_time = None, completion_time = None,
        assigned_staff = None\<rparr> 3600000000) = 23 / 40
   \<and> fst (calculate_priority
       \<lparr>request_id = ''REQ0001'', college = ''CAS'', document_type = ''Transcript of Records'',
        urgency = 5, requester_type = ''Faculty'', submission_time = 0,
        priority_score = 0, assignment_time = None, completion_time = None,
        assigned_staff = None\<rparr> 3600000000) \<le> 1"
  using calculate_priority_range [of
       "\<lparr>request_id = ''REQ0001'', college = ''CAS'', document_type = ''Transcript of Records'',
        urgency = 5, requester_type = ''Faculty'', submission_time = 0,
        priority_score = 0, assignment_time = None, completion_time = None,
        assigned_staff = None\<rparr>" 3600000000]
  by (simp add: dict_get_def REQUESTER_PRIORITY_def DOCUMENT_COMPLEXITY_def total_minutes_def)

text \<open>Claim C1 as stated fails: a graduating student's request for a certification with
  urgency 10, scored 120 minutes after submission, gets 1.0375.\<close>

theorem calculate_priority_above_one:
  "submission_time
     \<lparr>request_id = ''REQ0000'', college = ''COE'', document_type = ''Certification'',
      urgency = 10, requester_type = ''Graduating Student'', submission_time = 0,
      priority_score = 0, assignment_time = None, completion_time = None,
      assigned_staff = None\<rparr> \<le> 7200000000
   \<and> fst (calculate_priority
       \<lparr>request_id = ''REQ0000'', college = ''COE'', document_type = ''Certification'',
        urgency = 10, requester_type = ''Graduating Student'', submission_time = 0,
        priority_score = 0, assignment_time = None, completion_time = None,
        assigned_staff = None\<rparr> 7200000000) = 83 / 80
   \<and> \<not> fst (calculate_priority
       \<lparr>request_id = ''REQ0000'', college = ''COE'', document_type = ''Certification'',
        urgency = 10, requester_type = ''Graduating Student'', submission_time = 0,
        priority_score = 0, assignment_time = None, completion_time = None,
        assigned_staff = None\<rparr> 7200000000) \<le> 1"
  by (simp add: priority_defs Let_def dict_get_def REQUESTER_PRIORITY_def DOCUMENT_COMPLEXITY_def)

subsection \<open>Re-invocation\<close>

lemma calculate_priority_ignores_score:
  "fst (calculate_priority (r\<lparr>priority_score := p\<rparr>) t) = fst (calculate_priority r t)"
  by (simp add: priority_defs Let_def)

lemma snd_calculate_priority:
  "snd (calculate_priority r t) = r\<lparr>priority_score := fst (calculate_priority r t)\<rparr>"
  by (simp add: calculate_priority_def Let_def)

lemma waiting_norm_strict:
  "now < now' \<Longrightarrow> waiting_minutes r now < 120 \<Longrightarrow> waiting_norm r now < waiting_norm r now'"
  by (simp add: waiting_norm_def waiting_minutes_def total_minutes_def min_def)

lemma waiting_norm_capped:
  "now < now' \<Longrightarrow> 120 \<le> waiting_minutes r now \<Longrightarrow> waiting_norm r now' = waiting_norm r now"
  by (simp add: waiting_norm_def waiting_minutes_def total_minutes_def min_def)

text \<open>
  Claim C8. Invoking \<^verbatim>\<open>calculate_priority\<close> again with the same \<open>now\<close> returns the same score
  and leaves the request as the first call left it. Invoking it with a strictly later \<open>now'\<close>
  returns a strictly larger score when fewer than 120 minutes had been waited at \<open>now\<close>, and an
  equal score when the 120-minute cap had been reached.
\<close>

theorem calculate_priority_reinvoke:
  "calculate_priority (snd (calculate_priority r now)) now = calculate_priority r now
   \<and> (now < now' \<and> waiting_minutes r now < 120 \<longrightarrow>
        fst (calculate_priority r now) < fst (calculate_priority (snd (calculate_priority r now)) now'))
   \<and> (now < now' \<and> 120 \<le> waiting_minutes r now \<longrightarrow>
        fst (calculate_priority (snd (calculate_priority r now)) now') = fst (calculate_priority r now))"
proof -
  have a: "calculate_priority (snd (calculate_priority r now)) now = calculate_priority r now"
    by (simp add: priority_defs Let_def)
  have later: "fst (calculate_priority (snd (calculate_priority r now)) now')
               = fst (calculate_priority r now')"
    by (simp add: snd_calculate_priority calculate_priority_ignores_score)
  have b: "now < now' \<and> waiting_minutes r now < 120 \<longrightarrow>
        fst (calculate_priority r now) < fst (calculate_priority r now')"
    using waiting_norm_strict [of now now' r] by (auto simp: score_eq)
  have c: "now < now' \<and> 120 \<le> waiting_minutes r now \<longrightarrow>
        fst (calculate_priority r now') = fst (calculate_priority r now)"
    using waiting_norm_capped [of now now' r] by (auto simp: score_eq)
  from a b c later show ?thesis by simp
qed

text \<open>Claim C8 at one request: one microsecond later the score is larger after 60 minutes
  of waiting, and equal after 120 minutes.\<close>

theorem calculate_priority_reinvoke_witness:
  "waiting_minutes
     \<lparr>request_id = ''REQ0001'', college = ''CAS'', document_type = ''Transcript of Records'',
      urgency = 5, requester_type = ''Faculty'', submission_time = 0,
      priority_score = 0, assignment_time = None, completion_time = None,
      assigned_staff = None\<rparr> 3600000000 = 60
   \<and> fst (calculate_priority
       \<lparr>request_id = ''REQ0001'', college = ''CAS'', document_type = ''Transcript of Records'',
        urgency = 5, requester_type = ''Faculty'', submission_time = 0,
        priority_score = 0, assignment_time = None, completion_time = None,
        assigned_staff = None\<rparr> 3600000000)
     < fst (calculate_priority (snd (calculate_priority
       \<lparr>request_id = ''REQ0001'', college = ''CAS'', document_type = ''Transcript of Records'',
        urgency = 5, requester_type = ''Faculty'', submission_time = 0,
        priority_score = 0, assignment_time = None, completion_time = None,
        assigned_staff = None\<rparr> 3600000000)) 3600000001)
   \<and> waiting_minutes
     \<lparr>request_id = ''REQ0001'', college = ''CAS'', document_type = ''Transcript of Records'',
      urgency = 5, requester_type = ''Faculty'', submission_time = 0,
      priority_score = 0, assignment_time = None, completion_time = None,
      assigned_staff = None\<rparr> 7200000000 = 120
   \<and> fst (calculate_priority (snd (calculate_priority
       \<lparr>request_id = ''REQ0001'', college = ''CAS'', document_type = ''Transcript of Records'',
        urgency = 5, requester_type = ''Faculty'', submission_time = 0,
        priority_score = 0, assignment_time = None, completion_time = None,
        assigned_staff = None\<rparr> 7200000000)) 7200000001)
     = fst (calculate_priority
       \<lparr>request_id = ''REQ0001'', college = ''CAS'', document_type = ''Transcript of Records'',
        urgency = 5, requester_type = ''Faculty'', submission_time = 0,
        priority_score = 0, assignment_time = None, completion_time = None,
        assigned_staff = None\<rparr> 7200000000)"
  using calculate_priority_reinvoke [of
       "\<lparr>request_id = ''REQ0001'', college = ''CAS'', document_type = ''Transcript of Records'',
        urgency = 5, requester_type = ''Faculty'', submission_time = 0,
        priority_score = 0, assignment_time = None, completion_time = None,
        assigned_staff = None\<rparr>" 3600000000 3600000001]
    calculate_priority_reinvoke [of
       "\<lparr>request_id = ''REQ0001'', college = ''CAS'', document_type = ''Transcript of Records'',
        urgency = 5, requester_type = ''Faculty'', submission_time = 0,
        priority_score = 0, assignment_time = None, completion_time = None,
        assigned_staff = None\<rparr>" 7200000000 7200000001]
  by (simp add: waiting_minutes_def total_minutes_def)

section \<open>The pooled and the quota-free allocator\<close>

text \<open>
  Claim C4. On every roster, request and candidate time, the pooled allocator and the quota-free
  allocator return the same staff member, or both return none.
\<close>

theorem pooled_quota_free_coincide:
  "Pooled_assign pool request stime = QuotaFree_assign pool request stime
   \<and> assign PooledAllocator pool request stime g = assign QuotaFreeAllocator pool request stime g"
  by (simp add: Pooled_assign_def QuotaFree_assign_def)

section \<open>Auxiliary facts\<close>

lemma round_half_even_nonneg: "0 \<le> x \<Longrightarrow> 0 \<le> round_half_even x"
  by (simp add: round_half_even_def Let_def)

lemma round_half_even_of_int: "round_half_even (of_int k) = k"
  by (simp add: round_half_even_def Let_def)

lemma timedelta_minutes_nonneg: "0 \<le> x \<Longrightarrow> 0 \<le> timedelta_minutes x"
  by (simp add: timedelta_minutes_def round_half_even_nonneg)

lemma random_random_range: "0 \<le> fst (random_random g) \<and> fst (random_random g) < 1"
  by (simp add: random_random_def)

lemma random_uniform_ge: "a \<le> b \<Longrightarrow> a \<le> fst (random_uniform a b g)"
proof -
  assume "a \<le> b"
  then have "0 \<le> (b - a) * fst (random_random g)"
    using random_random_range [of g] by simp
  then show ?thesis by (simp add: random_uniform_def split_def Let_def)
qed

lemma random_choice_in: "xs \<noteq> [] \<Longrightarrow> fst (random_choice xs g) \<in> set xs"
  by (simp add: random_choice_def)

lemma min_from_in: "min_from f b xs \<in> set (b # xs)"
  by (induction xs arbitrary: b) auto

lemma min_by_key_Some: "min_by_key f xs = Some y \<Longrightarrow> y \<in> set xs"
  using min_from_in [of f] by (auto simp: min_by_key_def split: list.splits)

lemma min_by_key_None: "min_by_key f xs = None \<longleftrightarrow> xs = []"
  by (simp add: min_by_key_def split: list.splits)

lemma set_staff_where: "set (staff_where P pool) = {i. i < length pool \<and> P (pool ! i)}"
  by (auto simp: staff_where_def)

lemma staff_where_available:
  "staff_where (\<lambda>s. college_affiliation s = c \<and> is_available s) pool \<noteq> []
     \<Longrightarrow> staff_where is_available pool \<noteq> []"
proof -
  assume "staff_where (\<lambda>s. college_affiliation s = c \<and> is_available s) pool \<noteq> []"
  then obtain i where "i \<in> set (staff_where (\<lambda>s. college_affiliation s = c \<and> is_available s) pool)"
    by (cases "staff_where (\<lambda>s. college_affiliation s = c \<and> is_available s) pool") auto
  then have "i \<in> set (staff_where is_available pool)"
    by (simp add: set_staff_where)
  then show ?thesis by auto
qed

lemma WorkloadBased_assign_Some:
  "WorkloadBased_assign pool req t = Some i \<Longrightarrow> i < length pool \<and> is_available (pool ! i)"
  by (auto simp: WorkloadBased_assign_def Let_def set_staff_where split: if_splits
      dest!: min_by_key_Some)

lemma Pooled_assign_Some:
  "Pooled_assign pool req t = Some i \<Longrightarrow> i < length pool \<and> is_available (pool ! i)"
  by (auto simp: Pooled_assign_def Let_def set_staff_where split: if_splits
      dest!: min_by_key_Some)

lemma CollegeBased_assign_Some:
  "CollegeBased_assign pool req t g = (Some i, g') \<Longrightarrow>
     i < length pool \<and> is_available (pool ! i) \<and> college_affiliation (pool ! i) = college req"
proof -
  let ?c = "staff_where (\<lambda>s. college_affiliation s = college req \<and> is_available s) pool"
  assume a: "CollegeBased_assign pool req t g = (Some i, g')"
  then have ne: "?c \<noteq> []"
    by (auto simp: CollegeBased_assign_def Let_def split: if_splits)
  with a have "i = fst (random_choice ?c g)"
    by (auto simp: CollegeBased_assign_def Let_def split_def)
  with ne have "i \<in> set ?c" by (simp add: random_choice_in)
  then show ?thesis by (simp add: set_staff_where)
qed

lemma QuotaFree_assign_Some:
  "QuotaFree_assign pool req t = Some i \<Longrightarrow> i < length pool \<and> is_available (pool ! i)"
  by (auto simp: QuotaFree_assign_def Let_def set_staff_where split: if_splits
      dest!: min_by_key_Some)

lemma assign_Some:
  "assign k pool req t g = (Some i, g') \<Longrightarrow> i < length pool \<and> is_available (pool ! i)"
  by (cases k)
     (auto dest: CollegeBased_assign_Some WorkloadBased_assign_Some Pooled_assign_Some
        QuotaFree_assign_Some)

section \<open>One step of the driver\<close>

lemma process_request_skip:
  "end_time < submission_time req \<Longrightarrow> process_request e end_time req g = (Inr (), e, g)"
  by (simp add: process_request_def)

lemma process_request_none:
  "\<not> end_time < submission_time req \<Longrightarrow>
   assign (allocator e) (staff_pool e) req (submission_time req) g = (None, g1) \<Longrightarrow>
   process_request e end_time req g = (Inr (), e, g1)"
  by (simp add: process_request_def)

lemma process_request_keyerror:
  "\<not> end_time < submission_time req \<Longrightarrow>
   assign (allocator e) (staff_pool e) req (submission_time req) g = (Some i, g1) \<Longrightarrow>
   map_of DOCUMENT_COMPLEXITY (document_type req) = None \<Longrightarrow>
   process_request e end_time req g = (Inl (KeyError (document_type req)), e, g1)"
  by (simp add: process_request_def Let_def)

lemma process_request_some:
  "\<not> end_time < submission_time req \<Longrightarrow>
   assign (allocator e) (staff_pool e) req (submission_time req) g = (Some i, g1) \<Longrightarrow>
   map_of DOCUMENT_COMPLEXITY (document_type req) = Some c \<Longrightarrow>
   process_request e end_time req g =
     (let s = staff_pool e ! i;
          atime = max (submission_time req) (next_available_time s);
          pt = timedelta_minutes (fst (random_uniform (c * 3 * 0.8) (c * 3 * 1.2) g1))
      in (Inr (),
          e\<lparr>staff_pool := (staff_pool e)[i := assign_request s atime pt],
            completed := completed e @
              [req\<lparr>assignment_time := Some atime, assigned_staff := Some (staff_id s),
                   completion_time := Some (atime + pt)\<rparr>]\<rparr>,
          snd (random_uniform (c * 3 * 0.8) (c * 3 * 1.2) g1)))"
  by (simp add: process_request_def Let_def split_def)

lemma assign_None_iff:
  "fst (assign k pool req t g) = None \<longleftrightarrow> candidate_list k pool req = []"
proof (cases k)
  case CollegeBasedAllocator
  then show ?thesis by (simp add: CollegeBased_assign_def Let_def split_def)
next
  case WorkloadBasedAllocator
  then show ?thesis
    using staff_where_available [of "college req" pool]
    by (auto simp: WorkloadBased_assign_def Let_def min_by_key_None)
next
  case PooledAllocator
  then show ?thesis by (simp add: Pooled_assign_def Let_def min_by_key_None)
next
  case QuotaFreeAllocator
  then show ?thesis by (simp add: QuotaFree_assign_def Let_def min_by_key_None)
qed

lemma assign_in_candidate_list:
  "assign k pool req t g = (Some i, g') \<Longrightarrow> i \<in> set (candidate_list k pool req)"
proof (cases k)
  case CollegeBasedAllocator
  assume "assign k pool req t g = (Some i, g')"
  with CollegeBasedAllocator show ?thesis
    using CollegeBased_assign_Some [of pool req t g i g']
    by (simp add: set_staff_where)
next
  case WorkloadBasedAllocator
  assume "assign k pool req t g = (Some i, g')"
  with WorkloadBasedAllocator show ?thesis
    by (auto simp: WorkloadBased_assign_def Let_def split: if_splits dest: min_by_key_Some)
next
  case PooledAllocator
  assume "assign k pool req t g = (Some i, g')"
  with PooledAllocator show ?thesis
    by (auto simp: Pooled_assign_def Let_def split: if_splits dest: min_by_key_Some)
next
  case QuotaFreeAllocator
  assume "assign k pool req t g = (Some i, g')"
  with QuotaFreeAllocator show ?thesis
    by (auto simp: QuotaFree_assign_def Let_def split: if_splits dest: min_by_key_Some)
qed

lemma staff_where_map_busy:
  "(\<And>s. P (s\<lparr>next_available_time := f s\<rparr>) = P s) \<Longrightarrow>
   staff_where P (map (\<lambda>s. s\<lparr>next_available_time := f s\<rparr>) pool) = staff_where P pool"
  by (auto simp: staff_where_def intro: filter_cong)

lemma candidate_list_ignores_busy:
  "candidate_list k (map (\<lambda>s. s\<lparr>next_available_time := f s\<rparr>) pool) req = candidate_list k pool req"
  by (cases k) (simp_all add: staff_where_map_busy Let_def)

text \<open>One visit of the loop body, for a request within the horizon and of a known document
  type.\<close>

lemma process_request_outcome:
  assumes "submission_time req \<le> end_time"
    and "map_of DOCUMENT_COMPLEXITY (document_type req) = Some c"
  shows "candidate_list (allocator e) (map (\<lambda>s. s\<lparr>next_available_time := busy s\<rparr>) (staff_pool e)) req
           = candidate_list (allocator e) (staff_pool e) req
     \<and> (case assign (allocator e) (staff_pool e) req (submission_time req) g of
          (None, g1) \<Rightarrow>
            candidate_list (allocator e) (staff_pool e) req = []
            \<and> process_request e end_time req g = (Inr (), e, g1)
        | (Some i, g1) \<Rightarrow>
            i \<in> set (candidate_list (allocator e) (staff_pool e) req)
            \<and> (let s = staff_pool e ! i;
                    atime = max (submission_time req) (next_available_time s);
                    pt = timedelta_minutes (fst (random_uniform (c * 3 * 0.8) (c * 3 * 1.2) g1))
                in process_request e end_time req g =
                     (Inr (),
                      e\<lparr>staff_pool := (staff_pool e)[i := assign_request s atime pt],
                        completed := completed e @
                          [req\<lparr>assignment_time := Some atime,
                               assigned_staff := Some (staff_id s),
                               completion_time := Some (atime + pt)\<rparr>]\<rparr>,
                      snd (random_uniform (c * 3 * 0.8) (c * 3 * 1.2) g1))))"
proof -
  obtain st g1 where a: "assign (allocator e) (staff_pool e) req (submission_time req) g = (st, g1)"
    by (cases "assign (allocator e) (staff_pool e) req (submission_time req) g")
  have h: "\<not> end_time < submission_time req" using assms(1) by simp
  show ?thesis
  proof (cases st)
    case None
    with a have "candidate_list (allocator e) (staff_pool e) req = []"
      using assign_None_iff [of "allocator e" "staff_pool e" req "submission_time req" g] by simp
    with None a h show ?thesis
      by (simp add: process_request_none candidate_list_ignores_busy)
  next
    case (Some i)
    with a have "i \<in> set (candidate_list (allocator e) (staff_pool e) req)"
      by (simp add: assign_in_candidate_list)
    with Some a show ?thesis
      using process_request_some [OF h _ assms(2), of e g i g1]
      by (simp add: candidate_list_ignores_busy)
  qed
qed

lemmas engine_init_defs =
  engine_init_def engine_of_kind_def init_staff_def new_StaffMember_def create_allocator_def dict_get_def
  upper_def upper_char_def

lemmas draw_defs =
  random_uniform_def random_random_def random_choice_def rng_head_def rng_tail_def
  timedelta_minutes_def round_half_even_def

lemma assign_request_count: "total_assigned (assign_request s a p) = total_assigned s + 1"
  by (simp add: assign_request_def)

lemma process_request_changed:
  assumes "process_request e end_time req g = (res, e', g')" and "completed e' \<noteq> completed e"
  shows "\<exists>i g1 c. \<not> end_time < submission_time req
     \<and> assign (allocator e) (staff_pool e) req (submission_time req) g = (Some i, g1)
     \<and> map_of DOCUMENT_COMPLEXITY (document_type req) = Some c"
proof -
  obtain st g1 where a: "assign (allocator e) (staff_pool e) req (submission_time req) g = (st, g1)"
    by (cases "assign (allocator e) (staff_pool e) req (submission_time req) g")
  show ?thesis
  proof (cases "end_time < submission_time req")
    case True
    with assms show ?thesis by (simp add: process_request_skip)
  next
    case False
    show ?thesis
    proof (cases st)
      case None
      with a False assms show ?thesis by (simp add: process_request_none)
    next
      case (Some i)
      show ?thesis
      proof (cases "map_of DOCUMENT_COMPLEXITY (document_type req)")
        case None
        with a Some False assms show ?thesis by (simp add: process_request_keyerror)
      next
        case (Some c)
        with a \<open>st = Some i\<close> False show ?thesis by simp
      qed
    qed
  qed
qed

text \<open>
  Claim C6. The workload-based allocator only returns members of the roster whose
  \<^verbatim>\<open>is_available\<close> flag is true. Whenever a step of the driver with that allocator appends a
  request to the completed list, the member the allocator returned has its cumulative count
  increased by exactly 1 and every other member's count is unchanged.
\<close>

theorem workload_based_assignment:
  "(WorkloadBased_assign pool req t = Some i \<longrightarrow> i < length pool \<and> is_available (pool ! i))
   \<and> (allocator e = WorkloadBasedAllocator
        \<and> process_request e end_time req g = (res, e', g')
        \<and> completed e' \<noteq> completed e \<longrightarrow>
      (\<exists>k < length (staff_pool e).
         WorkloadBased_assign (staff_pool e) req (submission_time req) = Some k
         \<and> is_available (staff_pool e ! k)
         \<and> length (staff_pool e') = length (staff_pool e)
         \<and> total_assigned (staff_pool e' ! k) = total_assigned (staff_pool e ! k) + 1
         \<and> (\<forall>j < length (staff_pool e). j \<noteq> k \<longrightarrow>
               total_assigned (staff_pool e' ! j) = total_assigned (staff_pool e ! j))))"
proof -
  have A: "WorkloadBased_assign pool req t = Some i \<longrightarrow> i < length pool \<and> is_available (pool ! i)"
    by (simp add: WorkloadBased_assign_Some)
  have B: "\<exists>k < length (staff_pool e).
         WorkloadBased_assign (staff_pool e) req (submission_time req) = Some k
         \<and> is_available (staff_pool e ! k)
         \<and> length (staff_pool e') = length (staff_pool e)
         \<and> total_assigned (staff_pool e' ! k) = total_assigned (staff_pool e ! k) + 1
         \<and> (\<forall>j < length (staff_pool e). j \<noteq> k \<longrightarrow>
               total_assigned (staff_pool e' ! j) = total_assigned (staff_pool e ! j))"
    if w: "allocator e = WorkloadBasedAllocator"
      and p: "process_request e end_time req g = (res, e', g')"
      and ch: "completed e' \<noteq> completed e"
  proof -
    from process_request_changed [OF p ch] obtain k g1 c where
      h: "\<not> end_time < submission_time req"
      and a: "assign (allocator e) (staff_pool e) req (submission_time req) g = (Some k, g1)"
      and c: "map_of DOCUMENT_COMPLEXITY (document_type req) = Some c"
      by blast
    from a w have wk: "WorkloadBased_assign (staff_pool e) req (submission_time req) = Some k"
      by simp
    then have k: "k < length (staff_pool e) \<and> is_available (staff_pool e ! k)"
      by (rule WorkloadBased_assign_Some)
    from process_request_some [OF h a c] p
    have e': "staff_pool e' = (staff_pool e)[k := assign_request (staff_pool e ! k)
                (max (submission_time req) (next_available_time (staff_pool e ! k)))
                (timedelta_minutes (fst (random_uniform (c * 3 * 0.8) (c * 3 * 1.2) g1)))]"
      by (auto simp: Let_def)
    from k have "total_assigned (staff_pool e' ! k) = total_assigned (staff_pool e ! k) + 1"
      by (simp add: e' assign_request_count)
    moreover have "\<forall>j < length (staff_pool e). j \<noteq> k \<longrightarrow>
               total_assigned (staff_pool e' ! j) = total_assigned (staff_pool e ! j)"
      by (simp add: e')
    moreover have "length (staff_pool e') = length (staff_pool e)" by (simp add: e')
    ultimately show ?thesis using wk k by blast
  qed
  from A B show ?thesis by blast
qed

text \<open>Claim C6 at one step of a fresh workload-based engine: the request of college COE goes to
  the first member, who is available, and only that member's count becomes 1.\<close>

theorem workload_based_assignment_witness:
  "WorkloadBased_assign (staff_pool (engine_init ''FCFS'' ''workload_based'' (\<lambda>k. 100)))
     \<lparr>request_id = ''REQ0000'', college = ''COE'', document_type = ''Certificate of Enrollment'',
      urgency = 5, requester_type = ''Faculty'', submission_time = 0,
      priority_score = 0, assignment_time = None, completion_time = None,
      assigned_staff = None\<rparr> 0 = Some 0
   \<and> is_available (staff_pool (engine_init ''FCFS'' ''workload_based'' (\<lambda>k. 100)) ! 0)
   \<and> length (completed (fst (snd (process_request
          (engine_init ''FCFS'' ''workload_based'' (\<lambda>k. 100)) 10
          \<lparr>request_id = ''REQ0000'', college = ''COE'',
           document_type = ''Certificate of Enrollment'',
           urgency = 5, requester_type = ''Faculty'', submission_time = 0,
           priority_score = 0, assignment_time = None, completion_time = None,
           assigned_staff = None\<rparr> (\<lambda>k. 0))))) = 1
   \<and> map total_assigned (staff_pool (fst (snd (process_request
          (engine_init ''FCFS'' ''workload_based'' (\<lambda>k. 100)) 10
          \<lparr>request_id = ''REQ0000'', college = ''COE'',
           document_type = ''Certificate of Enrollment'',
           urgency = 5, requester_type = ''Faculty'', submission_time = 0,
           priority_score = 0, assignment_time = None, completion_time = None,
           assigned_staff = None\<rparr> (\<lambda>k. 0)))))
     = [1, 0, 0, 0, 0, 0]"
  using workload_based_assignment [of
     "staff_pool (engine_init ''FCFS'' ''workload_based'' (\<lambda>k. 100))"
     "\<lparr>request_id = ''REQ0000'', college = ''COE'', document_type = ''Certificate of Enrollment'',
      urgency = 5, requester_type = ''Faculty'', submission_time = 0,
      priority_score = 0, assignment_time = None, completion_time = None,
      assigned_staff = None\<rparr>" 0 0
     "engine_init ''FCFS'' ''workload_based'' (\<lambda>k. 100)" 10 "\<lambda>k. 0"]
  by (simp add: engine_init_defs draw_defs DOCUMENT_COMPLEXITY_def WorkloadBased_assign_def
      process_request_def staff_where_def min_by_key_def Let_def assign_request_def)

section \<open>What the processing loop changes\<close>

lemma complexity_positive: "map_of DOCUMENT_COMPLEXITY d = Some c \<Longrightarrow> 0 < c"
  by (auto simp: DOCUMENT_COMPLEXITY_def split: if_splits)

lemma processing_time_nonneg:
  "0 < c \<Longrightarrow> 0 \<le> timedelta_minutes (fst (random_uniform (c * 3 * 0.8) (c * 3 * 1.2) g))"
proof -
  assume c: "0 < c"
  then have "c * 3 * 0.8 \<le> c * 3 * 1.2" by simp
  then have "c * 3 * 0.8 \<le> fst (random_uniform (c * 3 * 0.8) (c * 3 * 1.2) g)"
    by (rule random_uniform_ge)
  moreover from c have "0 \<le> c * 3 * 0.8" by simp
  ultimately have "0 \<le> fst (random_uniform (c * 3 * 0.8) (c * 3 * 1.2) g)" by linarith
  then show ?thesis by (rule timedelta_minutes_nonneg)
qed

lemma process_request_shape:
  assumes "process_request e end_time req g = (res, e', g')"
  shows "e' = e \<or>
    (\<exists>i pt. i < length (staff_pool e) \<and> is_available (staff_pool e ! i) \<and> 0 \<le> pt
       \<and> res = Inr () \<and> \<not> end_time < submission_time req
       \<and> e' = e\<lparr>staff_pool := (staff_pool e)[i := assign_request (staff_pool e ! i)
                    (max (submission_time req) (next_available_time (staff_pool e ! i))) pt],
                 completed := completed e @
                   [req\<lparr>assignment_time :=
                          Some (max (submission_time req) (next_available_time (staff_pool e ! i))),
                        assigned_staff := Some (staff_id (staff_pool e ! i)),
                        completion_time :=
                          Some (max (submission_time req) (next_available_time (staff_pool e ! i))
                                  + pt)\<rparr>]\<rparr>)"
proof -
  obtain st g1 where a: "assign (allocator e) (staff_pool e) req (submission_time req) g = (st, g1)"
    by (cases "assign (allocator e) (staff_pool e) req (submission_time req) g")
  show ?thesis
  proof (cases "end_time < submission_time req")
    case True
    with assms show ?thesis by (simp add: process_request_skip)
  next
    case False
    show ?thesis
    proof (cases st)
      case None
      with a False assms show ?thesis by (simp add: process_request_none)
    next
      case (Some i)
      with a have i: "i < length (staff_pool e) \<and> is_available (staff_pool e ! i)"
        by (simp add: assign_Some)
      show ?thesis
      proof (cases "map_of DOCUMENT_COMPLEXITY (document_type req)")
        case None
        with a \<open>st = Some i\<close> False assms show ?thesis by (simp add: process_request_keyerror)
      next
        case (Some c)
        then have "0 < c" by (rule complexity_positive)
        then have "0 \<le> timedelta_minutes (fst (random_uniform (c * 3 * 0.8) (c * 3 * 1.2) g1))"
          by (rule processing_time_nonneg)
        moreover from process_request_some [OF False _ Some, of e g i g1] a \<open>st = Some i\<close> assms
        have "res = Inr () \<and> e' = e\<lparr>staff_pool := (staff_pool e)[i := assign_request (staff_pool e ! i)
                    (max (submission_time req) (next_available_time (staff_pool e ! i)))
                    (timedelta_minutes (fst (random_uniform (c * 3 * 0.8) (c * 3 * 1.2) g1)))],
                 completed := completed e @
                   [req\<lparr>assignment_time :=
                          Some (max (submission_time req) (next_available_time (staff_pool e ! i))),
                        assigned_staff := Some (staff_id (staff_pool e ! i)),
                        completion_time :=
                          Some (max (submission_time req) (next_available_time (staff_pool e ! i))
                                  + timedelta_minutes (fst (random_uniform (c * 3 * 0.8) (c * 3 * 1.2) g1)))\<rparr>]\<rparr>"
          by (simp add: Let_def)
        ultimately show ?thesis using i False by blast
      qed
    qed
  qed
qed

lemma advances_refl: "advances e e"
  by (simp add: advances_def list_all2_refl)

lemma advances_trans: "advances e1 e2 \<Longrightarrow> advances e2 e3 \<Longrightarrow> advances e1 e3"
proof -
  assume a: "advances e1 e2" and b: "advances e2 e3"
  from a obtain n1 where n1: "completed e2 = completed e1 @ n1" "list_all stamped n1"
    "sum_list (map total_assigned (staff_pool e2))
       = sum_list (map total_assigned (staff_pool e1)) + int (length n1)"
    by (auto simp: advances_def)
  from b obtain n2 where n2: "completed e3 = completed e2 @ n2" "list_all stamped n2"
    "sum_list (map total_assigned (staff_pool e3))
       = sum_list (map total_assigned (staff_pool e2)) + int (length n2)"
    by (auto simp: advances_def)
  have m: "list_all2 (\<lambda>s s'. total_assigned s \<le> total_assigned s') (staff_pool e1) (staff_pool e3)"
  proof (rule list_all2_trans)
    show "\<And>a b c. total_assigned a \<le> total_assigned b \<Longrightarrow>
            total_assigned b \<le> total_assigned c \<Longrightarrow> total_assigned a \<le> total_assigned c"
      by simp
    show "list_all2 (\<lambda>s s'. total_assigned s \<le> total_assigned s') (staff_pool e1) (staff_pool e2)"
      using a by (simp add: advances_def)
    show "list_all2 (\<lambda>s s'. total_assigned s \<le> total_assigned s') (staff_pool e2) (staff_pool e3)"
      using b by (simp add: advances_def)
  qed
  have "completed e3 = completed e1 @ (n1 @ n2) \<and> list_all stamped (n1 @ n2)
     \<and> sum_list (map total_assigned (staff_pool e3))
       = sum_list (map total_assigned (staff_pool e1)) + int (length (n1 @ n2))"
    using n1 n2 by simp
  then have "\<exists>new. completed e3 = completed e1 @ new \<and> list_all stamped new
     \<and> sum_list (map total_assigned (staff_pool e3))
       = sum_list (map total_assigned (staff_pool e1)) + int (length new)"
    by blast
  with a b m show ?thesis by (simp add: advances_def)
qed

lemma sum_list_map_update:
  fixes f :: "'a \<Rightarrow> int"
  shows "i < length xs \<Longrightarrow> sum_list (map f (xs[i := y])) = sum_list (map f xs) - f (xs ! i) + f y"
proof (induction xs arbitrary: i)
  case Nil
  then show ?case by simp
next
  case (Cons x xs)
  then show ?case by (cases i) auto
qed

lemma map_update_same: "f y = f (xs ! i) \<Longrightarrow> map f (xs[i := y]) = map f xs"
proof (cases "i < length xs")
  case True
  assume "f y = f (xs ! i)"
  with True show ?thesis by (simp add: map_update list_update_same_conv)
next
  case False
  then show ?thesis by (simp add: list_update_beyond)
qed

lemma process_request_advances:
  assumes "process_request e end_time req g = (res, e', g')"
  shows "advances e e'"
proof -
  from process_request_shape [OF assms] show ?thesis
  proof
    assume "e' = e"
    then show ?thesis by (simp add: advances_refl)
  next
    assume "\<exists>i pt. i < length (staff_pool e) \<and> is_available (staff_pool e ! i) \<and> 0 \<le> pt
       \<and> res = Inr () \<and> \<not> end_time < submission_time req
       \<and> e' = e\<lparr>staff_pool := (staff_pool e)[i := assign_request (staff_pool e ! i)
                    (max (submission_time req) (next_available_time (staff_pool e ! i))) pt],
                 completed := completed e @
                   [req\<lparr>assignment_time :=
                          Some (max (submission_time req) (next_available_time (staff_pool e ! i))),
                        assigned_staff := Some (staff_id (staff_pool e ! i)),
                        completion_time :=
                          Some (max (submission_time req) (next_available_time (staff_pool e ! i))
                                  + pt)\<rparr>]\<rparr>"
    then obtain i pt where i: "i < length (staff_pool e)" and pt: "0 \<le> pt"
      and e': "e' = e\<lparr>staff_pool := (staff_pool e)[i := assign_request (staff_pool e ! i)
                    (max (submission_time req) (next_available_time (staff_pool e ! i))) pt],
                 completed := completed e @
                   [req\<lparr>assignment_time :=
                          Some (max (submission_time req) (next_available_time (staff_pool e ! i))),
                        assigned_staff := Some (staff_id (staff_pool e ! i)),
                        completion_time :=
                          Some (max (submission_time req) (next_available_time (staff_pool e ! i))
                                  + pt)\<rparr>]\<rparr>"
      by blast
    let ?s = "assign_request (staff_pool e ! i)
                    (max (submission_time req) (next_available_time (staff_pool e ! i))) pt"
    have 1: "map staff_id ((staff_pool e)[i := ?s]) = map staff_id (staff_pool e)"
      by (rule map_update_same) (simp add: assign_request_def)
    have 2: "map college_affiliation ((staff_pool e)[i := ?s]) = map college_affiliation (staff_pool e)"
      by (rule map_update_same) (simp add: assign_request_def)
    have 3: "map is_available ((staff_pool e)[i := ?s]) = map is_available (staff_pool e)"
      by (rule map_update_same) (simp add: assign_request_def)
    have 4: "list_all2 (\<lambda>s s'. total_assigned s \<le> total_assigned s') (staff_pool e)
               ((staff_pool e)[i := ?s])"
      using i by (auto simp: list_all2_conv_all_nth nth_list_update assign_request_def)
    have 5: "sum_list (map total_assigned ((staff_pool e)[i := ?s]))
               = sum_list (map total_assigned (staff_pool e)) + 1"
      using i by (simp add: sum_list_map_update assign_request_def)
    have 6: "stamped (req\<lparr>assignment_time :=
                          Some (max (submission_time req) (next_available_time (staff_pool e ! i))),
                        assigned_staff := Some (staff_id (staff_pool e ! i)),
                        completion_time :=
                          Some (max (submission_time req) (next_available_time (staff_pool e ! i))
                                  + pt)\<rparr>)"
      using pt by (simp add: stamped_def)
    from 1 2 3 4 5 6 show ?thesis
      by (simp add: advances_def e')
  qed
qed

lemma process_requests_advances:
  "process_requests e end_time reqs g = (res, e', g') \<Longrightarrow> advances e e'"
proof (induction reqs arbitrary: e g)
  case Nil
  then show ?case by (simp add: advances_refl)
next
  case (Cons req reqs)
  obtain r1 e1 g1 where s: "process_request e end_time req g = (r1, e1, g1)"
    by (cases "process_request e end_time req g")
  then have a: "advances e e1" by (rule process_request_advances)
  show ?case
  proof (cases r1)
    case (Inl err)
    with s Cons.prems a show ?thesis by simp
  next
    case (Inr u)
    with s Cons.prems have "process_requests e1 end_time reqs g1 = (res, e', g')" by simp
    then have "advances e1 e'" by (rule Cons.IH)
    with a show ?thesis by (rule advances_trans)
  qed
qed

section \<open>The structure of a run\<close>

lemma generate_requests_engine:
  "fst (snd (generate_requests e scen d g)) =
     (if scen = ''staff_absence'' \<and> 2 < length (staff_pool e)
      then e\<lparr>scenario := scen,
             staff_pool := (staff_pool e)[2 := (staff_pool e ! 2)\<lparr>is_available := False\<rparr>]\<rparr>
      else e\<lparr>scenario := scen\<rparr>)"
  by (auto simp: generate_requests_def Let_def split_def)

lemma generate_requests_result:
  "fst (generate_requests e scen d g) =
     (if scen = ''staff_absence'' \<and> length (staff_pool e) \<le> 2 then Inl IndexError
      else Inr (fst (make_requests (start_time e) d (total_requests_of scen) (colleges_of scen)
                  (urgency_range_of scen) [0..<total_requests_of scen] g)))"
  by (auto simp: generate_requests_def Let_def split_def)

lemma calculate_metrics_report:
  "calculate_metrics e d = Inr rep \<Longrightarrow>
     total_processed rep = int (length (completed e))
     \<and> staff_load rep = staff_load_of (staff_pool e)
     \<and> scenario_label rep = scenario e"
  by (auto simp: calculate_metrics_def Let_def split: if_splits)

lemma process_and_report_advances:
  "process_and_report e end_time d reqs g = (res, e', g') \<Longrightarrow> advances e e'"
  by (auto simp: process_and_report_def split: prod.splits sum.splits
      dest: process_requests_advances)

lemma process_and_report_report:
  "process_and_report e end_time d reqs g = (Inr rep, e', g') \<Longrightarrow>
     total_processed rep = int (length (completed e'))
     \<and> staff_load rep = staff_load_of (staff_pool e')
     \<and> scenario_label rep = scenario e'"
  by (auto simp: process_and_report_def split: prod.splits sum.splits
      dest: calculate_metrics_report)

lemma run_advances:
  assumes "run e scen d g = (res, e', g')"
  shows "advances (fst (snd (generate_requests e scen d g))) e'"
proof -
  obtain r1 e1 g1 where gen: "generate_requests e scen d g = (r1, e1, g1)"
    by (cases "generate_requests e scen d g")
  show ?thesis
  proof (cases r1)
    case (Inl err)
    with gen assms show ?thesis by (simp add: run_def advances_refl)
  next
    case (Inr requests)
    with gen assms show ?thesis
      by (auto simp: run_def Let_def advances_refl split: if_splits
          dest: process_and_report_advances)
  qed
qed

lemma run_report:
  assumes "run e scen d g = (Inr rep, e', g')"
  shows "total_processed rep = int (length (completed e'))
     \<and> staff_load rep = staff_load_of (staff_pool e')
     \<and> scenario_label rep = scenario e'"
proof -
  obtain r1 e1 g1 where gen: "generate_requests e scen d g = (r1, e1, g1)"
    by (cases "generate_requests e scen d g")
  show ?thesis
  proof (cases r1)
    case (Inl err)
    with gen assms show ?thesis by (simp add: run_def)
  next
    case (Inr requests)
    with gen assms show ?thesis
      by (auto simp: run_def Let_def split: if_splits dest: process_and_report_report)
  qed
qed

lemma run_unknown_scheduler:
  assumes "scheduler_type e \<noteq> ''FCFS''" and "scheduler_type e \<noteq> ''WEIGHTED''"
    and "2 < length (staff_pool e)"
  shows "fst (run e scen d g) = Inl (ValueError (''Unknown scheduler type: '' @ scheduler_type e))
     \<and> fst (snd (run e scen d g)) =
         (if scen = ''staff_absence''
          then e\<lparr>scenario := scen,
                 staff_pool := (staff_pool e)[2 := (staff_pool e ! 2)\<lparr>is_available := False\<rparr>]\<rparr>
          else e\<lparr>scenario := scen\<rparr>)"
proof -
  obtain r1 e1 g1 where gen: "generate_requests e scen d g = (r1, e1, g1)"
    by (cases "generate_requests e scen d g")
  from gen generate_requests_engine [of e scen d g] assms(3)
  have e1: "e1 = (if scen = ''staff_absence''
          then e\<lparr>scenario := scen,
                 staff_pool := (staff_pool e)[2 := (staff_pool e ! 2)\<lparr>is_available := False\<rparr>]\<rparr>
          else e\<lparr>scenario := scen\<rparr>)"
    by simp
  from gen generate_requests_result [of e scen d g] assms(3)
  obtain requests where r1: "r1 = Inr requests" by auto
  from e1 have s: "scheduler_type e1 = scheduler_type e" by simp
  from gen r1 s assms(1,2) have "run e scen d g =
      (Inl (ValueError (''Unknown scheduler type: '' @ scheduler_type e)), e1, g1)"
    by (simp add: run_def Let_def)
  with e1 show ?thesis by simp
qed

section \<open>Properties of every run\<close>

lemma advances_roster:
  assumes "advances e e'"
  shows "length (staff_pool e') = length (staff_pool e)
     \<and> (\<forall>i < length (staff_pool e).
           staff_id (staff_pool e' ! i) = staff_id (staff_pool e ! i)
           \<and> college_affiliation (staff_pool e' ! i) = college_affiliation (staff_pool e ! i)
           \<and> is_available (staff_pool e' ! i) = is_available (staff_pool e ! i)
           \<and> total_assigned (staff_pool e ! i) \<le> total_assigned (staff_pool e' ! i))"
proof -
  from assms have l: "length (staff_pool e') = length (staff_pool e)"
    by (auto simp: advances_def dest: map_eq_imp_length_eq)
  have "staff_id (staff_pool e' ! i) = staff_id (staff_pool e ! i)
           \<and> college_affiliation (staff_pool e' ! i) = college_affiliation (staff_pool e ! i)
           \<and> is_available (staff_pool e' ! i) = is_available (staff_pool e ! i)
           \<and> total_assigned (staff_pool e ! i) \<le> total_assigned (staff_pool e' ! i)"
    if i: "i < length (staff_pool e)" for i
  proof -
    from assms have "map staff_id (staff_pool e') ! i = map staff_id (staff_pool e) ! i"
      and "map college_affiliation (staff_pool e') ! i = map college_affiliation (staff_pool e) ! i"
      and "map is_available (staff_pool e') ! i = map is_available (staff_pool e) ! i"
      by (simp_all add: advances_def)
    moreover from assms have "total_assigned (staff_pool e ! i) \<le> total_assigned (staff_pool e' ! i)"
      using i by (simp add: advances_def list_all2_conv_all_nth)
    ultimately show ?thesis using i l by simp
  qed
  with l show ?thesis by blast
qed

lemma stamped_iff:
  "stamped r \<longleftrightarrow>
     (\<exists>a c s. assignment_time r = Some a \<and> completion_time r = Some c \<and> assigned_staff r = Some s
        \<and> submission_time r \<le> a \<and> a \<le> c)"
  by (auto simp: stamped_def split: option.splits)

lemma generate_requests_completed:
  "completed (fst (snd (generate_requests e scen d g))) = completed e"
  by (simp add: generate_requests_engine)

lemma run_completed:
  assumes "run e scen d g = (res, e', g')"
  shows "\<exists>new. completed e' = completed e @ new \<and> list_all stamped new"
  using run_advances [OF assms] by (auto simp: advances_def generate_requests_completed)

text \<open>
  Claim C3. If every request in the completed list has its assignment time, completion time and
  assigned staff all set, with \<open>submission_time \<le> assignment_time \<le> completion_time\<close>, then
  the same holds after any call of \<^verbatim>\<open>run\<close>, whatever it returns or raises. The completed list of
  a new engine is empty, so this holds of every request ever appended: no completed request has
  any of the three fields unset.
\<close>

theorem completed_requests_stamped:
  assumes "\<forall>r \<in> set (completed e).
      \<exists>a c s. assignment_time r = Some a \<and> completion_time r = Some c \<and> assigned_staff r = Some s
        \<and> submission_time r \<le> a \<and> a \<le> c"
    and "run e scen d g = (res, e', g')"
  shows "\<forall>r \<in> set (completed e').
      \<exists>a c s. assignment_time r = Some a \<and> completion_time r = Some c \<and> assigned_staff r = Some s
        \<and> submission_time r \<le> a \<and> a \<le> c"
proof -
  from run_completed [OF assms(2)] obtain new where
    n: "completed e' = completed e @ new" "list_all stamped new" by blast
  from n(2) have "\<forall>r \<in> set new. stamped r" by (simp add: list_all_iff)
  with assms(1) n(1) show ?thesis by (auto simp: stamped_iff)
qed

text \<open>
  Claim C10. The roster of a new engine has six members, the third being STAFF003 of college
  CBA. On a roster of at least three members, a run with scenario \<^verbatim>\<open>staff_absence\<close> leaves the
  third member unavailable, and a run with any scenario that starts with the third member
  unavailable ends with the same member, still unavailable.
\<close>

theorem staff_absence_is_permanent:
  "length (staff_pool (engine_init sched alloc clock)) = 6
   \<and> staff_id (staff_pool (engine_init sched alloc clock) ! 2) = ''STAFF003''
   \<and> college_affiliation (staff_pool (engine_init sched alloc clock) ! 2) = ''CBA''
   \<and> (2 < length (staff_pool e) \<longrightarrow>
        (let e' = fst (snd (run e ''staff_absence'' d g))
         in length (staff_pool e') = length (staff_pool e)
            \<and> staff_id (staff_pool e' ! 2) = staff_id (staff_pool e ! 2)
            \<and> \<not> is_available (staff_pool e' ! 2)))
   \<and> (2 < length (staff_pool e) \<and> \<not> is_available (staff_pool e ! 2) \<longrightarrow>
        (let e' = fst (snd (run e scen d g))
         in length (staff_pool e') = length (staff_pool e)
            \<and> staff_id (staff_pool e' ! 2) = staff_id (staff_pool e ! 2)
            \<and> \<not> is_available (staff_pool e' ! 2)))"
proof -
  have init: "length (staff_pool (engine_init sched alloc clock)) = 6
   \<and> staff_id (staff_pool (engine_init sched alloc clock) ! 2) = ''STAFF003''
   \<and> college_affiliation (staff_pool (engine_init sched alloc clock) ! 2) = ''CBA''"
    by (simp add: engine_init_def engine_of_kind_def init_staff_def new_StaffMember_def)
  have step: "length (staff_pool (fst (snd (run e sc d g)))) = length (staff_pool e)
            \<and> staff_id (staff_pool (fst (snd (run e sc d g))) ! 2) = staff_id (staff_pool e ! 2)
            \<and> \<not> is_available (staff_pool (fst (snd (run e sc d g))) ! 2)"
    if len: "2 < length (staff_pool e)"
      and off: "sc = ''staff_absence'' \<or> \<not> is_available (staff_pool e ! 2)" for sc
  proof -
    let ?e1 = "fst (snd (generate_requests e sc d g))"
    obtain res e' g' where r: "run e sc d g = (res, e', g')" by (cases "run e sc d g")
    from run_advances [OF r] have a: "advances ?e1 e'" .
    have l1: "length (staff_pool ?e1) = length (staff_pool e)"
      by (simp add: generate_requests_engine)
    have id1: "staff_id (staff_pool ?e1 ! 2) = staff_id (staff_pool e ! 2)"
      using len by (simp add: generate_requests_engine)
    have off1: "\<not> is_available (staff_pool ?e1 ! 2)"
      using len off by (auto simp: generate_requests_engine)
    from advances_roster [OF a] l1 len id1 off1 r show ?thesis by simp
  qed
  from init step [of "''staff_absence''"] step [of scen] show ?thesis
    by (simp add: Let_def)
qed

text \<open>Claim C10 on a new engine: available at first, unavailable after a
  \<^verbatim>\<open>staff_absence\<close> run, and still unavailable after a later \<^verbatim>\<open>baseline\<close> run.\<close>

theorem staff_absence_is_permanent_witness:
  "is_available (staff_pool (engine_init ''FCFS'' ''college_based'' (\<lambda>k. 0)) ! 2)
   \<and> \<not> is_available (staff_pool (fst (snd
        (run (engine_init ''FCFS'' ''college_based'' (\<lambda>k. 0)) ''staff_absence'' 60 (\<lambda>k. 0)))) ! 2)
   \<and> \<not> is_available (staff_pool (fst (snd
        (run (fst (snd
          (run (engine_init ''FCFS'' ''college_based'' (\<lambda>k. 0)) ''staff_absence'' 60 (\<lambda>k. 0))))
          ''baseline'' 60 (\<lambda>k. 1)))) ! 2)
   \<and> staff_id (staff_pool (fst (snd
        (run (fst (snd
          (run (engine_init ''FCFS'' ''college_based'' (\<lambda>k. 0)) ''staff_absence'' 60 (\<lambda>k. 0))))
          ''baseline'' 60 (\<lambda>k. 1)))) ! 2) = ''STAFF003''"
proof -
  let ?e0 = "engine_init ''FCFS'' ''college_based'' (\<lambda>k. 0)"
  let ?e1 = "fst (snd (run ?e0 ''staff_absence'' 60 (\<lambda>k. 0)))"
  let ?e2 = "fst (snd (run ?e1 ''baseline'' 60 (\<lambda>k. 1)))"
  have a0: "is_available (staff_pool ?e0 ! 2)"
    by (simp add: engine_init_def engine_of_kind_def init_staff_def new_StaffMember_def)
  from staff_absence_is_permanent [of "''FCFS''" "''college_based''" "\<lambda>k. 0" ?e0 60 "\<lambda>k. 0"]
  have 1: "length (staff_pool ?e1) = 6 \<and> staff_id (staff_pool ?e1 ! 2) = ''STAFF003''
      \<and> \<not> is_available (staff_pool ?e1 ! 2)"
    by (simp add: Let_def)
  with staff_absence_is_permanent [of "''FCFS''" "''college_based''" "\<lambda>k. 0" ?e1 60 "\<lambda>k. 1"
      "''baseline''"]
  have 2: "staff_id (staff_pool ?e2 ! 2) = ''STAFF003'' \<and> \<not> is_available (staff_pool ?e2 ! 2)"
    by (simp add: Let_def)
  from a0 1 2 show ?thesis by simp
qed

subsection \<open>An unknown scheduler kind\<close>

lemma engine_of_kind_roster: "length (staff_pool (engine_of_kind kind alloc clock)) = 6"
  by (simp add: engine_of_kind_def init_staff_def)

lemma engine_init_roster: "length (staff_pool (engine_init sched alloc clock)) = 6"
  by (simp add: engine_init_def engine_of_kind_roster)

text \<open>
  Claim C2, as amended. Let \<open>kind\<close> be the upper-cased scheduler kind, that is, the string
  \<^verbatim>\<open>scheduler_type.upper()\<close> returned in the constructor, whatever characters the kind has. If
  it is neither \<^verbatim>\<open>FCFS\<close> nor \<^verbatim>\<open>WEIGHTED\<close>, then \<^verbatim>\<open>run\<close> on the constructed engine raises
  \<^verbatim>\<open>ValueError\<close>, for every scenario, with a message that names \<open>kind\<close>. No request is
  processed: the completed list, the next-available times and the assignment counts are as
  before the call. Generation has run before the check, so the scenario label is the scenario
  argument, and for scenario \<^verbatim>\<open>staff_absence\<close> the third member's availability flag is false.
\<close>

theorem unknown_scheduler_raises:
  assumes "kind \<noteq> ''FCFS''" and "kind \<noteq> ''WEIGHTED''"
  shows "(let e = engine_of_kind kind alloc clock;
              res = fst (run e scen d g);
              e' = fst (snd (run e scen d g))
          in res = Inl (ValueError (''Unknown scheduler type: '' @ kind))
             \<and> e' = (if scen = ''staff_absence''
                     then e\<lparr>scenario := scen,
                            staff_pool :=
                              (staff_pool e)[2 := (staff_pool e ! 2)\<lparr>is_available := False\<rparr>]\<rparr>
                     else e\<lparr>scenario := scen\<rparr>)
             \<and> completed e' = completed e
             \<and> map next_available_time (staff_pool e') = map next_available_time (staff_pool e)
             \<and> map total_assigned (staff_pool e') = map total_assigned (staff_pool e)
             \<and> scenario e' = scen
             \<and> map is_available (staff_pool e') =
                 (if scen = ''staff_absence'' then [True, True, False, True, True, True]
                  else map is_available (staff_pool e)))"
proof -
  let ?e = "engine_of_kind kind alloc clock"
  have s: "scheduler_type ?e = kind" by (simp add: engine_of_kind_def)
  have l: "2 < length (staff_pool ?e)" by (simp add: engine_of_kind_roster)
  from run_unknown_scheduler [of ?e scen d g] assms s l
  have r: "fst (run ?e scen d g) = Inl (ValueError (''Unknown scheduler type: '' @ kind))
     \<and> fst (snd (run ?e scen d g)) =
         (if scen = ''staff_absence''
          then ?e\<lparr>scenario := scen,
                 staff_pool := (staff_pool ?e)[2 := (staff_pool ?e ! 2)\<lparr>is_available := False\<rparr>]\<rparr>
          else ?e\<lparr>scenario := scen\<rparr>)"
    by simp
  have m1: "map next_available_time ((staff_pool ?e)[2 := (staff_pool ?e ! 2)\<lparr>is_available := False\<rparr>])
      = map next_available_time (staff_pool ?e)"
    by (rule map_update_same) simp
  have m2: "map total_assigned ((staff_pool ?e)[2 := (staff_pool ?e ! 2)\<lparr>is_available := False\<rparr>])
      = map total_assigned (staff_pool ?e)"
    by (rule map_update_same) simp
  have m3: "map is_available ((staff_pool ?e)[2 := (staff_pool ?e ! 2)\<lparr>is_available := False\<rparr>])
      = [True, True, False, True, True, True]"
    by (simp add: engine_of_kind_def init_staff_def new_StaffMember_def)
  from r m1 m2 m3 show ?thesis by (simp add: Let_def)
qed

text \<open>The amended claim on the engine constructed with scheduler kind \<^verbatim>\<open>xyz\<close>, whose
  upper-cased kind is \<^verbatim>\<open>XYZ\<close>, run on scenario \<^verbatim>\<open>peak_urgency\<close>.\<close>

theorem unknown_scheduler_raises_witness:
  "engine_init ''xyz'' ''pooled'' (\<lambda>k. 0) = engine_of_kind ''XYZ'' ''pooled'' (\<lambda>k. 0)
   \<and> ''XYZ'' \<noteq> ''FCFS'' \<and> ''XYZ'' \<noteq> ''WEIGHTED''
   \<and> fst (run (engine_init ''xyz'' ''pooled'' (\<lambda>k. 0)) ''peak_urgency'' 60 (\<lambda>k. 0))
       = Inl (ValueError ''Unknown scheduler type: XYZ'')
   \<and> completed (fst (snd (run (engine_init ''xyz'' ''pooled'' (\<lambda>k. 0)) ''peak_urgency'' 60 (\<lambda>k. 0))))
       = []
   \<and> scenario (fst (snd (run (engine_init ''xyz'' ''pooled'' (\<lambda>k. 0)) ''peak_urgency'' 60 (\<lambda>k. 0))))
       = ''peak_urgency''
   \<and> map is_available
       (staff_pool (fst (snd (run (engine_init ''xyz'' ''pooled'' (\<lambda>k. 0)) ''peak_urgency'' 60 (\<lambda>k. 0)))))
       = [True, True, True, True, True, True]"
proof -
  have "upper ''xyz'' = ''XYZ''" by code_simp
  then have u: "engine_init ''xyz'' ''pooled'' (\<lambda>k. 0) = engine_of_kind ''XYZ'' ''pooled'' (\<lambda>k. 0)"
    by (simp add: engine_init_def)
  from unknown_scheduler_raises [of "''XYZ''" "''pooled''" "\<lambda>k. 0" "''peak_urgency''" 60 "\<lambda>k. 0"]
  show ?thesis
    by (simp add: u Let_def engine_of_kind_def init_staff_def new_StaffMember_def)
qed

text \<open>Claim C2 as stated fails: on the same engine, a run on scenario \<^verbatim>\<open>staff_absence\<close>
  raises the error and leaves the third member unavailable and the scenario label changed.\<close>

theorem unknown_scheduler_changes_state:
  "fst (run (engine_init ''xyz'' ''pooled'' (\<lambda>k. 0)) ''staff_absence'' 60 (\<lambda>k. 0))
       = Inl (ValueError ''Unknown scheduler type: XYZ'')
   \<and> is_available (staff_pool (engine_init ''xyz'' ''pooled'' (\<lambda>k. 0)) ! 2)
   \<and> \<not> is_available
       (staff_pool (fst (snd (run (engine_init ''xyz'' ''pooled'' (\<lambda>k. 0)) ''staff_absence'' 60 (\<lambda>k. 0)))) ! 2)
   \<and> scenario (engine_init ''xyz'' ''pooled'' (\<lambda>k. 0)) = ''baseline''
   \<and> scenario (fst (snd (run (engine_init ''xyz'' ''pooled'' (\<lambda>k. 0)) ''staff_absence'' 60 (\<lambda>k. 0))))
       = ''staff_absence''
   \<and> fst (snd (run (engine_init ''xyz'' ''pooled'' (\<lambda>k. 0)) ''staff_absence'' 60 (\<lambda>k. 0)))
       \<noteq> engine_init ''xyz'' ''pooled'' (\<lambda>k. 0)"
proof -
  let ?e = "engine_init ''xyz'' ''pooled'' (\<lambda>k. 0)"
  have "upper ''xyz'' = ''XYZ''" by code_simp
  then have s: "scheduler_type ?e = ''XYZ''" by (simp add: engine_init_def engine_of_kind_def)
  have l: "2 < length (staff_pool ?e)" by (simp add: engine_init_roster)
  from run_unknown_scheduler [of ?e "''staff_absence''" 60 "\<lambda>k. 0"] s l
  have r: "fst (run ?e ''staff_absence'' 60 (\<lambda>k. 0)) = Inl (ValueError ''Unknown scheduler type: XYZ'')
     \<and> fst (snd (run ?e ''staff_absence'' 60 (\<lambda>k. 0))) =
          ?e\<lparr>scenario := ''staff_absence'',
             staff_pool := (staff_pool ?e)[2 := (staff_pool ?e ! 2)\<lparr>is_available := False\<rparr>]\<rparr>"
    by simp
  have a: "is_available (staff_pool ?e ! 2)" and b: "scenario ?e = ''baseline''"
    by (simp_all add: engine_init_def engine_of_kind_def init_staff_def new_StaffMember_def)
  have c: "scenario (fst (snd (run ?e ''staff_absence'' 60 (\<lambda>k. 0)))) = ''staff_absence''"
    using r by simp
  have d: "\<not> is_available (staff_pool (fst (snd (run ?e ''staff_absence'' 60 (\<lambda>k. 0)))) ! 2)"
    using r l by simp
  from c b have "fst (snd (run ?e ''staff_absence'' 60 (\<lambda>k. 0))) \<noteq> ?e" by auto
  with r a b c d show ?thesis by blast
qed

section \<open>The baseline scenario under the college-based allocator\<close>

lemma doc_types_nonempty: "doc_types \<noteq> []"
  by (simp add: doc_types_def DOCUMENT_COMPLEXITY_def)

lemma doc_types_known: "d \<in> set doc_types \<Longrightarrow> \<exists>c. map_of DOCUMENT_COMPLEXITY d = Some c"
proof -
  assume "d \<in> set doc_types"
  then have "d \<in> fst ` set DOCUMENT_COMPLEXITY" by (simp add: doc_types_def)
  then have "map_of DOCUMENT_COMPLEXITY d \<noteq> None" by (simp add: map_of_eq_None_iff)
  then show ?thesis by auto
qed

lemma make_request_fields:
  "college (fst (make_request st d n cols urg i g)) = fst (random_choice cols g)
   \<and> document_type (fst (make_request st d n cols urg i g))
       = fst (random_choice doc_types (snd (random_choice cols g)))
   \<and> submission_time (fst (make_request st d n cols urg i g))
       = st + timedelta_minutes (real i * (of_int d / real n))"
  by (simp add: make_request_def Let_def split_def)

lemma make_requests_length:
  "length (fst (make_requests st d n cols urg idxs g)) = length idxs"
  by (induction idxs arbitrary: g) (simp_all add: split_def Let_def)

lemma make_requests_fields:
  "cols \<noteq> [] \<Longrightarrow> r \<in> set (fst (make_requests st d n cols urg idxs g)) \<Longrightarrow>
     college r \<in> set cols \<and> document_type r \<in> set doc_types
     \<and> (\<exists>i \<in> set idxs. submission_time r = st + timedelta_minutes (real i * (of_int d / real n)))"
proof (induction idxs arbitrary: g)
  case Nil
  then show ?case by simp
next
  case (Cons i idxs)
  let ?g1 = "snd (make_request st d n cols urg i g)"
  from Cons.prems(2) have
    "r = fst (make_request st d n cols urg i g)
     \<or> r \<in> set (fst (make_requests st d n cols urg idxs ?g1))"
    by (simp add: split_def Let_def)
  then show ?case
  proof
    assume r: "r = fst (make_request st d n cols urg i g)"
    from Cons.prems(1) have "fst (random_choice cols g) \<in> set cols"
      by (rule random_choice_in)
    moreover have "fst (random_choice doc_types (snd (random_choice cols g))) \<in> set doc_types"
      using doc_types_nonempty by (rule random_choice_in)
    ultimately show ?thesis by (simp add: r make_request_fields)
  next
    assume "r \<in> set (fst (make_requests st d n cols urg idxs ?g1))"
    from Cons.IH [OF Cons.prems(1) this] show ?thesis by auto
  qed
qed

lemma baseline_offset: "timedelta_minutes (real i * (of_int 60 / real 80)) = 45000000 * int i"
proof -
  have "real i * (of_int 60 / real 80) * 60000000 = of_int (45000000 * int i)" by simp
  then show ?thesis by (simp only: timedelta_minutes_def round_half_even_of_int)
qed

lemma baseline_horizon: "timedelta_minutes (of_int 60) = 3600000000"
proof -
  have "(of_int 60 :: real) * 60000000 = of_int 3600000000" by simp
  then show ?thesis by (simp only: timedelta_minutes_def round_half_even_of_int)
qed

lemma college_candidates_nonempty:
  assumes "map college_affiliation pool = COLLEGES"
    and "set (map is_available pool) \<subseteq> {True}"
    and "college req \<in> set COLLEGES"
  shows "staff_where (\<lambda>s. college_affiliation s = college req \<and> is_available s) pool \<noteq> []"
proof -
  from assms(3) obtain i where i: "i < length COLLEGES" "COLLEGES ! i = college req"
    by (auto simp: in_set_conv_nth)
  from assms(1) have l: "length pool = length COLLEGES"
    by (metis length_map)
  from assms(1) i l have "college_affiliation (pool ! i) = college req"
    by (metis nth_map)
  moreover have "pool ! i \<in> set pool" using i l by simp
  with assms(2) have "is_available (pool ! i)" by auto
  moreover note this
  ultimately have "i \<in> set (staff_where (\<lambda>s. college_affiliation s = college req \<and> is_available s) pool)"
    using i l by (simp add: set_staff_where)
  then show ?thesis by auto
qed

lemma process_request_college_assigned:
  assumes "allocator e = CollegeBasedAllocator"
    and "map college_affiliation (staff_pool e) = COLLEGES"
    and "set (map is_available (staff_pool e)) \<subseteq> {True}"
    and "college req \<in> set COLLEGES"
    and "submission_time req \<le> end_time"
    and "document_type req \<in> set doc_types"
  shows "\<exists>e' g'. process_request e end_time req g = (Inr (), e', g')
           \<and> length (completed e') = length (completed e) + 1"
proof -
  obtain st g1 where a: "assign (allocator e) (staff_pool e) req (submission_time req) g = (st, g1)"
    by (cases "assign (allocator e) (staff_pool e) req (submission_time req) g")
  have "candidate_list (allocator e) (staff_pool e) req \<noteq> []"
    using college_candidates_nonempty [OF assms(2,3,4)] assms(1) by simp
  with a have "st \<noteq> None"
    using assign_None_iff [of "allocator e" "staff_pool e" req "submission_time req" g] by simp
  then obtain i where st: "st = Some i" by auto
  from doc_types_known [OF assms(6)] obtain c where
    c: "map_of DOCUMENT_COMPLEXITY (document_type req) = Some c" by blast
  have h: "\<not> end_time < submission_time req" using assms(5) by simp
  from process_request_some [OF h _ c, of e g i g1] a st
  show ?thesis by (simp add: Let_def)
qed

lemma process_requests_college_all:
  assumes "allocator e = CollegeBasedAllocator"
    and "map college_affiliation (staff_pool e) = COLLEGES"
    and "set (map is_available (staff_pool e)) \<subseteq> {True}"
    and "\<forall>r \<in> set reqs. college r \<in> set COLLEGES \<and> submission_time r \<le> end_time
           \<and> document_type r \<in> set doc_types"
  shows "\<exists>e' g'. process_requests e end_time reqs g = (Inr (), e', g')
           \<and> length (completed e') = length (completed e) + length reqs"
  using assms
proof (induction reqs arbitrary: e g)
  case Nil
  then show ?case by simp
next
  case (Cons req reqs)
  from Cons.prems(4) have rq: "college req \<in> set COLLEGES" "submission_time req \<le> end_time"
    "document_type req \<in> set doc_types" by simp_all
  from process_request_college_assigned [OF Cons.prems(1,2,3) rq, of g]
  obtain e1 g1 where s: "process_request e end_time req g = (Inr (), e1, g1)"
    and l: "length (completed e1) = length (completed e) + 1" by blast
  from process_request_advances [OF s] have a: "advances e e1" .
  then have i1: "allocator e1 = CollegeBasedAllocator"
    and i2: "map college_affiliation (staff_pool e1) = COLLEGES"
    and i3: "set (map is_available (staff_pool e1)) \<subseteq> {True}"
    using Cons.prems(1,2,3) by (simp_all add: advances_def)
  from Cons.prems(4) have i4: "\<forall>r \<in> set reqs. college r \<in> set COLLEGES
      \<and> submission_time r \<le> end_time \<and> document_type r \<in> set doc_types" by simp
  from Cons.IH [OF i1 i2 i3 i4, of g1] obtain e' g' where
    "process_requests e1 end_time reqs g1 = (Inr (), e', g')"
    "length (completed e') = length (completed e1) + length reqs" by blast
  with s l show ?case by simp
qed

lemma dict_set_fresh: "k \<notin> fst ` set d \<Longrightarrow> dict_set d k v = d @ [(k, v)]"
  by (induction d) auto

lemma foldl_dict_set_distinct:
  "distinct (map staff_id pool) \<Longrightarrow> fst ` set acc \<inter> staff_id ` set pool = {} \<Longrightarrow>
   foldl (\<lambda>d s. dict_set d (staff_id s) (total_assigned s)) acc pool
     = acc @ map (\<lambda>s. (staff_id s, total_assigned s)) pool"
proof (induction pool arbitrary: acc)
  case Nil
  then show ?case by simp
next
  case (Cons s pool)
  from Cons.prems(2) have f: "staff_id s \<notin> fst ` set acc" by auto
  have "fst ` set (acc @ [(staff_id s, total_assigned s)]) \<inter> staff_id ` set pool = {}"
    using Cons.prems by auto
  with Cons.IH [of "acc @ [(staff_id s, total_assigned s)]"] Cons.prems(1) f
  show ?case by (simp add: dict_set_fresh)
qed

lemma staff_load_of_distinct:
  "distinct (map staff_id pool) \<Longrightarrow>
     staff_load_of pool = map (\<lambda>s. (staff_id s, total_assigned s)) pool"
  using foldl_dict_set_distinct [of pool "[]"] by (simp add: staff_load_of_def)

lemma total_requests_baseline: "total_requests_of ''baseline'' = 80"
  by (simp add: total_requests_of_def dict_get_def)

lemma colleges_baseline: "colleges_of ''baseline'' = COLLEGES"
  by (simp add: colleges_of_def)

lemma COLLEGES_nonempty: "COLLEGES \<noteq> []"
  by (simp add: COLLEGES_def)

lemma generate_requests_baseline:
  "generate_requests e ''baseline'' d g =
     (Inr (fst (make_requests (start_time e) d 80 COLLEGES (urgency_range_of ''baseline'') [0..<80] g)),
      e\<lparr>scenario := ''baseline''\<rparr>,
      snd (make_requests (start_time e) d 80 COLLEGES (urgency_range_of ''baseline'') [0..<80] g))"
  by (simp add: generate_requests_def Let_def split_def total_requests_baseline colleges_baseline)

lemma baseline_requests_ok:
  assumes "r \<in> set (fst (make_requests st 60 80 COLLEGES urg [0..<80] g))"
  shows "college r \<in> set COLLEGES \<and> submission_time r \<le> st + timedelta_minutes (of_int 60)
     \<and> document_type r \<in> set doc_types"
proof -
  from make_requests_fields [OF COLLEGES_nonempty assms] obtain i where
    f: "college r \<in> set COLLEGES" "document_type r \<in> set doc_types"
    and i: "i \<in> set [0..<80]"
    and s: "submission_time r = st + timedelta_minutes (real i * (of_int 60 / real 80))"
    by blast
  from i have "int i \<le> 80" by simp
  then have "45000000 * int i \<le> 3600000000" by simp
  with s have "submission_time r \<le> st + timedelta_minutes (of_int 60)"
    by (simp only: baseline_offset baseline_horizon)
  with f show ?thesis by simp
qed

lemma calculate_metrics_ok:
  "completed e \<noteq> [] \<Longrightarrow> d \<noteq> 0 \<Longrightarrow> \<exists>rep. calculate_metrics e d = Inr rep"
  by (simp add: calculate_metrics_def Let_def)

lemma run_fcfs_college_baseline:
  assumes "scheduler_type e = ''FCFS''"
    and "allocator e = CollegeBasedAllocator"
    and "map college_affiliation (staff_pool e) = COLLEGES"
    and "set (map is_available (staff_pool e)) \<subseteq> {True}"
  shows "\<exists>rep e' g'. run e ''baseline'' 60 g = (Inr rep, e', g')
     \<and> length (completed e') = length (completed e) + 80"
proof -
  let ?e1 = "e\<lparr>scenario := ''baseline''\<rparr>"
  let ?m = "make_requests (start_time e) 60 80 COLLEGES (urgency_range_of ''baseline'') [0..<80] g"
  let ?reqs = "sort_key submission_time (fst ?m)"
  let ?end = "start_time e + timedelta_minutes (of_int 60)"
  have ok: "\<forall>r \<in> set ?reqs. college r \<in> set COLLEGES \<and> submission_time r \<le> ?end
           \<and> document_type r \<in> set doc_types"
    using baseline_requests_ok [of _ "start_time e" "urgency_range_of ''baseline''" g] by simp
  have len: "length ?reqs = 80" by (simp add: make_requests_length)
  from process_requests_college_all [of ?e1 ?reqs ?end "snd ?m"] assms ok len
  obtain e' g' where p: "process_requests ?e1 ?end ?reqs (snd ?m) = (Inr (), e', g')"
    and l: "length (completed e') = length (completed e) + 80" by auto
  from l have "completed e' \<noteq> []" by auto
  then obtain rep where m: "calculate_metrics e' 60 = Inr rep"
    using calculate_metrics_ok [of e' 60] by auto
  from p m have "process_and_report ?e1 ?end 60 ?reqs (snd ?m) = (Inr rep, e', g')"
    by (simp add: process_and_report_def)
  with assms(1) have "run e ''baseline'' 60 g = (Inr rep, e', g')"
    by (simp add: run_def generate_requests_baseline Let_def)
  with l show ?thesis by blast
qed

lemma engine_init_fcfs_college:
  "scheduler_type (engine_init ''FCFS'' ''college_based'' clock) = ''FCFS''
   \<and> allocator (engine_init ''FCFS'' ''college_based'' clock) = CollegeBasedAllocator
   \<and> map college_affiliation (staff_pool (engine_init ''FCFS'' ''college_based'' clock)) = COLLEGES
   \<and> set (map is_available (staff_pool (engine_init ''FCFS'' ''college_based'' clock))) \<subseteq> {True}
   \<and> completed (engine_init ''FCFS'' ''college_based'' clock) = []
   \<and> map total_assigned (staff_pool (engine_init ''FCFS'' ''college_based'' clock))
        = [0, 0, 0, 0, 0, 0]
   \<and> map staff_id (staff_pool (engine_init ''FCFS'' ''college_based'' clock))
        = [''STAFF001'', ''STAFF002'', ''STAFF003'', ''STAFF004'', ''STAFF005'', ''STAFF006'']"
  by (simp add: engine_init_defs COLLEGES_def)

lemma run_roster:
  assumes "run e scen d g = (res, e', g')"
  shows "map staff_id (staff_pool e') = map staff_id (staff_pool e)
     \<and> list_all2 (\<lambda>s s'. total_assigned s \<le> total_assigned s') (staff_pool e) (staff_pool e')
     \<and> (\<exists>new. completed e' = completed e @ new \<and> list_all stamped new
          \<and> sum_list (map total_assigned (staff_pool e'))
               = sum_list (map total_assigned (staff_pool e)) + int (length new))"
proof -
  let ?e1 = "fst (snd (generate_requests e scen d g))"
  from run_advances [OF assms] have a: "advances ?e1 e'" .
  have 1: "map staff_id (staff_pool ?e1) = map staff_id (staff_pool e)"
    by (simp add: generate_requests_engine map_update_same)
  have 2: "map total_assigned (staff_pool ?e1) = map total_assigned (staff_pool e)"
    by (simp add: generate_requests_engine map_update_same)
  have 3: "completed ?e1 = completed e" by (rule generate_requests_completed)
  from a have "list_all2 (\<lambda>s s'. total_assigned s \<le> total_assigned s') (staff_pool ?e1) (staff_pool e')"
    by (simp add: advances_def)
  then have "list_all2 (\<lambda>x y. x \<le> y) (map total_assigned (staff_pool ?e1))
      (map total_assigned (staff_pool e'))"
    by (simp add: list_all2_map1 list_all2_map2)
  with 2 have 4: "list_all2 (\<lambda>s s'. total_assigned s \<le> total_assigned s') (staff_pool e) (staff_pool e')"
    by (simp add: list_all2_map1 list_all2_map2)
  from a 1 2 3 4 show ?thesis by (auto simp: advances_def)
qed

text \<open>
  Claim C7. For every random source and every clock, a new engine with the FCFS scheduler and
  the college-based allocator, run on scenario \<^verbatim>\<open>baseline\<close> with duration 60, returns a report
  (it does not raise) in which \<open>0 < total_processed \<le> 80\<close> and \<^verbatim>\<open>staff_load\<close> has exactly six
  entries whose values sum to \<^verbatim>\<open>total_processed\<close>. All 80 generated requests are processed.
\<close>

theorem baseline_throughput:
  "(case run (engine_init ''FCFS'' ''college_based'' clock) ''baseline'' 60 g of
      (Inl err, e', g') \<Rightarrow> False
    | (Inr rep, e', g') \<Rightarrow>
        0 < total_processed rep \<and> total_processed rep \<le> 80
        \<and> length (staff_load rep) = 6
        \<and> sum_list (map snd (staff_load rep)) = total_processed rep
        \<and> total_processed rep = 80)"
proof -
  let ?e = "engine_init ''FCFS'' ''college_based'' clock"
  note i = engine_init_fcfs_college [of clock]
  from run_fcfs_college_baseline [of ?e g] i
  obtain rep e' g' where r: "run ?e ''baseline'' 60 g = (Inr rep, e', g')"
    and l: "length (completed e') = 80" by auto
  from run_report [OF r] have tp: "total_processed rep = int (length (completed e'))"
    and sl: "staff_load rep = staff_load_of (staff_pool e')" by simp_all
  from run_roster [OF r] obtain new where ids: "map staff_id (staff_pool e') = map staff_id (staff_pool ?e)"
    and c: "completed e' = completed ?e @ new"
    and s: "sum_list (map total_assigned (staff_pool e'))
               = sum_list (map total_assigned (staff_pool ?e)) + int (length new)"
    by blast
  from ids i have d: "distinct (map staff_id (staff_pool e'))" by simp
  from ids have len: "length (staff_pool e') = 6"
    using i by (metis length_map engine_init_roster)
  from c i l have "length new = 80" by simp
  with s i have sum: "sum_list (map total_assigned (staff_pool e')) = 80" by simp
  have sl': "staff_load rep = map (\<lambda>s. (staff_id s, total_assigned s)) (staff_pool e')"
    using sl d by (simp add: staff_load_of_distinct)
  have ms: "map snd (staff_load rep) = map total_assigned (staff_pool e')"
    by (simp add: sl' comp_def)
  have ll: "length (staff_load rep) = 6" by (simp add: sl' len)
  from sum ms have "sum_list (map snd (staff_load rep)) = 80" by simp
  with tp l ll r show ?thesis by simp
qed

section \<open>Completed requests and accumulated metrics\<close>

lemma run_baseline_keeps:
  assumes "run e ''baseline'' d g = (res, e', g')"
  shows "scheduler_type e' = scheduler_type e \<and> allocator e' = allocator e
     \<and> map college_affiliation (staff_pool e') = map college_affiliation (staff_pool e)
     \<and> map is_available (staff_pool e') = map is_available (staff_pool e)"
  using run_advances [OF assms] by (simp add: advances_def generate_requests_engine)

text \<open>Claim C3 on the first run of a new engine: the completed list is not empty and its first
  request has the three fields set, in order.\<close>

theorem completed_requests_stamped_witness:
  "completed (fst (snd (run (engine_init ''FCFS'' ''college_based'' (\<lambda>k. 0)) ''baseline'' 60
      (\<lambda>k. 0)))) \<noteq> []
   \<and> (\<exists>a c s.
        assignment_time (hd (completed (fst (snd (run
          (engine_init ''FCFS'' ''college_based'' (\<lambda>k. 0)) ''baseline'' 60 (\<lambda>k. 0)))))) = Some a
        \<and> completion_time (hd (completed (fst (snd (run
          (engine_init ''FCFS'' ''college_based'' (\<lambda>k. 0)) ''baseline'' 60 (\<lambda>k. 0)))))) = Some c
        \<and> assigned_staff (hd (completed (fst (snd (run
          (engine_init ''FCFS'' ''college_based'' (\<lambda>k. 0)) ''baseline'' 60 (\<lambda>k. 0)))))) = Some s
        \<and> submission_time (hd (completed (fst (snd (run
          (engine_init ''FCFS'' ''college_based'' (\<lambda>k. 0)) ''baseline'' 60 (\<lambda>k. 0))))))
            \<le> a
        \<and> a \<le> c)"
proof -
  let ?e = "engine_init ''FCFS'' ''college_based'' (\<lambda>k. 0)"
  note i = engine_init_fcfs_college [of "\<lambda>k. 0"]
  from run_fcfs_college_baseline [of ?e "\<lambda>k. 0"] i
  obtain rep e' g' where r: "run ?e ''baseline'' 60 (\<lambda>k. 0) = (Inr rep, e', g')"
    and l: "length (completed e') = 80" by auto
  from l have ne: "completed e' \<noteq> []" by auto
  then have h: "hd (completed e') \<in> set (completed e')" by simp
  from i have "\<forall>r \<in> set (completed ?e).
      \<exists>a c s. assignment_time r = Some a \<and> completion_time r = Some c \<and> assigned_staff r = Some s
        \<and> submission_time r \<le> a \<and> a \<le> c" by simp
  from completed_requests_stamped [OF this r] h
  have "\<exists>a c s. assignment_time (hd (completed e')) = Some a
        \<and> completion_time (hd (completed e')) = Some c
        \<and> assigned_staff (hd (completed e')) = Some s
        \<and> submission_time (hd (completed e')) \<le> a \<and> a \<le> c" by blast
  with ne r show ?thesis by simp
qed

text \<open>
  Claim C9. On one engine (with distinct staff identifiers, as every constructed engine has),
  when two calls of \<^verbatim>\<open>run\<close> in a row both return a report, the completed list after the second
  call extends the list after the first, \<^verbatim>\<open>total_processed\<close> of the second report is that of the
  first plus the number of requests completed in the second call, and \<^verbatim>\<open>staff_load\<close> of the
  second report has the same keys, values no smaller than in the first, and a sum larger by
  the number of requests completed in the second call.
\<close>

theorem metrics_accumulate:
  assumes "distinct (map staff_id (staff_pool e))"
    and "run e scen1 d1 g = (Inr rep1, e1, g1)"
    and "run e1 scen2 d2 g1 = (Inr rep2, e2, g2)"
  shows "\<exists>new. completed e2 = completed e1 @ new
     \<and> total_processed rep1 = int (length (completed e1))
     \<and> total_processed rep2 = total_processed rep1 + int (length new)
     \<and> map fst (staff_load rep2) = map fst (staff_load rep1)
     \<and> list_all2 (\<lambda>x y. x \<le> y) (map snd (staff_load rep1)) (map snd (staff_load rep2))
     \<and> sum_list (map snd (staff_load rep2)) = sum_list (map snd (staff_load rep1)) + int (length new)"
proof -
  from run_roster [OF assms(2)] have ids1: "map staff_id (staff_pool e1) = map staff_id (staff_pool e)"
    by blast
  from run_roster [OF assms(3)] obtain new where
    ids2: "map staff_id (staff_pool e2) = map staff_id (staff_pool e1)"
    and mono: "list_all2 (\<lambda>s s'. total_assigned s \<le> total_assigned s') (staff_pool e1) (staff_pool e2)"
    and c: "completed e2 = completed e1 @ new"
    and s: "sum_list (map total_assigned (staff_pool e2))
               = sum_list (map total_assigned (staff_pool e1)) + int (length new)"
    by blast
  from ids1 ids2 assms(1) have d1: "distinct (map staff_id (staff_pool e1))"
    and d2: "distinct (map staff_id (staff_pool e2))" by simp_all
  from run_report [OF assms(2)] d1 have tp1: "total_processed rep1 = int (length (completed e1))"
    and sl1: "staff_load rep1 = map (\<lambda>s. (staff_id s, total_assigned s)) (staff_pool e1)"
    by (simp_all add: staff_load_of_distinct)
  from run_report [OF assms(3)] d2 have tp2: "total_processed rep2 = int (length (completed e2))"
    and sl2: "staff_load rep2 = map (\<lambda>s. (staff_id s, total_assigned s)) (staff_pool e2)"
    by (simp_all add: staff_load_of_distinct)
  have k1: "map fst (staff_load rep1) = map staff_id (staff_pool e1)"
    and v1: "map snd (staff_load rep1) = map total_assigned (staff_pool e1)"
    by (simp_all add: sl1 comp_def)
  have k2: "map fst (staff_load rep2) = map staff_id (staff_pool e2)"
    and v2: "map snd (staff_load rep2) = map total_assigned (staff_pool e2)"
    by (simp_all add: sl2 comp_def)
  from mono have m: "list_all2 (\<lambda>x y. x \<le> y) (map snd (staff_load rep1)) (map snd (staff_load rep2))"
    by (simp add: v1 v2 list_all2_map1 list_all2_map2)
  from tp1 tp2 c have t: "total_processed rep2 = total_processed rep1 + int (length new)" by simp
  from s have "sum_list (map snd (staff_load rep2))
      = sum_list (map snd (staff_load rep1)) + int (length new)" by (simp add: v1 v2)
  with c tp1 t k1 k2 ids2 m show ?thesis by auto
qed

text \<open>Claim C9 on a new engine run twice on the baseline scenario: the first report counts 80
  requests, the second 160.\<close>

theorem metrics_accumulate_witness:
  "(case run (engine_init ''FCFS'' ''college_based'' (\<lambda>k. 0)) ''baseline'' 60 (\<lambda>k. 0) of
      (Inl err, e1, g1) \<Rightarrow> False
    | (Inr rep1, e1, g1) \<Rightarrow>
        (case run e1 ''baseline'' 60 g1 of
           (Inl err, e2, g2) \<Rightarrow> False
         | (Inr rep2, e2, g2) \<Rightarrow>
             total_processed rep1 = 80 \<and> total_processed rep2 = 160
             \<and> length (completed e2) = 160))"
proof -
  let ?e = "engine_init ''FCFS'' ''college_based'' (\<lambda>k. 0)"
  note i = engine_init_fcfs_college [of "\<lambda>k. 0"]
  from run_fcfs_college_baseline [of ?e "\<lambda>k. 0"] i
  obtain rep1 e1 g1 where r1: "run ?e ''baseline'' 60 (\<lambda>k. 0) = (Inr rep1, e1, g1)"
    and l1: "length (completed e1) = 80" by auto
  from run_baseline_keeps [OF r1] i
  have k: "scheduler_type e1 = ''FCFS''" "allocator e1 = CollegeBasedAllocator"
    "map college_affiliation (staff_pool e1) = COLLEGES"
    "set (map is_available (staff_pool e1)) \<subseteq> {True}" by simp_all
  from run_fcfs_college_baseline [OF k, of g1] l1
  obtain rep2 e2 g2 where r2: "run e1 ''baseline'' 60 g1 = (Inr rep2, e2, g2)"
    and l2: "length (completed e2) = 160" by auto
  from i have d: "distinct (map staff_id (staff_pool ?e))" by simp
  from metrics_accumulate [OF d r1 r2] obtain new where
    c: "completed e2 = completed e1 @ new"
    and t1: "total_processed rep1 = int (length (completed e1))"
    and t2: "total_processed rep2 = total_processed rep1 + int (length new)" by blast
  from c l1 l2 have "length new = 80" by simp
  with t1 t2 l1 l2 r1 r2 show ?thesis by simp
qed

section \<open>Which requests the driver drops\<close>

lemma staff_where_cong:
  assumes "length p' = length p" and "\<And>i. i < length p \<Longrightarrow> P (p' ! i) = P (p ! i)"
  shows "staff_where P p' = staff_where P p"
  using assms by (auto simp: staff_where_def intro: filter_cong)

lemma candidate_list_advances:
  assumes "advances e e1"
  shows "candidate_list (allocator e1) (staff_pool e1) r = candidate_list (allocator e) (staff_pool e) r"
proof -
  from assms have a: "allocator e1 = allocator e" by (simp add: advances_def)
  from advances_roster [OF assms] have l: "length (staff_pool e1) = length (staff_pool e)"
    and f: "\<And>i. i < length (staff_pool e) \<Longrightarrow>
        college_affiliation (staff_pool e1 ! i) = college_affiliation (staff_pool e ! i)
        \<and> is_available (staff_pool e1 ! i) = is_available (staff_pool e ! i)"
    by simp_all
  have 1: "staff_where (\<lambda>s. college_affiliation s = college r \<and> is_available s) (staff_pool e1)
      = staff_where (\<lambda>s. college_affiliation s = college r \<and> is_available s) (staff_pool e)"
    using l f by (intro staff_where_cong) simp_all
  have 2: "staff_where is_available (staff_pool e1) = staff_where is_available (staff_pool e)"
    using l f by (intro staff_where_cong) simp_all
  show ?thesis by (cases "allocator e") (simp_all add: a 1 2 Let_def)
qed

lemma served_advances: "advances e e1 \<Longrightarrow> served e1 end_time r = served e end_time r"
  by (simp add: served_def candidate_list_advances)

lemma process_request_served:
  assumes "document_type r \<in> set doc_types"
    and "process_request e end_time r g = (res, e1, g1)"
  shows "res = Inr ()
     \<and> (if served e end_time r
         then \<exists>r'. stamped_copy r r' \<and> completed e1 = completed e @ [r']
         else completed e1 = completed e)"
proof (cases "submission_time r \<le> end_time")
  case False
  with assms(2) show ?thesis by (simp add: process_request_skip served_def)
next
  case True
  from doc_types_known [OF assms(1)] obtain c where
    c: "map_of DOCUMENT_COMPLEXITY (document_type r) = Some c" by blast
  obtain st g2 where a: "assign (allocator e) (staff_pool e) r (submission_time r) g = (st, g2)"
    by (cases "assign (allocator e) (staff_pool e) r (submission_time r) g")
  note o = process_request_outcome [OF True c, of e "\<lambda>s. 0" g]
  show ?thesis
  proof (cases st)
    case None
    with o a assms(2) show ?thesis by (simp add: served_def)
  next
    case (Some i)
    let ?s = "staff_pool e ! i"
    let ?a = "max (submission_time r) (next_available_time ?s)"
    let ?pt = "timedelta_minutes (fst (random_uniform (c * 3 * 0.8) (c * 3 * 1.2) g2))"
    let ?r' = "r\<lparr>assignment_time := Some ?a, assigned_staff := Some (staff_id ?s),
                 completion_time := Some (?a + ?pt)\<rparr>"
    from c have "0 < c" by (rule complexity_positive)
    then have pt: "0 \<le> ?pt" by (rule processing_time_nonneg)
    from o a Some have ne: "candidate_list (allocator e) (staff_pool e) r \<noteq> []"
      by auto
    from o a Some assms(2) have e1: "completed e1 = completed e @ [?r']" and res: "res = Inr ()"
      by (auto simp: Let_def)
    from pt have "stamped_copy r ?r'" by (simp add: stamped_copy_def stamped_def)
    with e1 res ne True show ?thesis by (auto simp: served_def)
  qed
qed

lemma process_requests_served:
  assumes "\<forall>r \<in> set reqs. document_type r \<in> set doc_types"
    and "process_requests e end_time reqs g = (res, e', g')"
  shows "res = Inr ()
     \<and> (\<exists>new. completed e' = completed e @ new
           \<and> list_all2 stamped_copy (filter (served e end_time) reqs) new)"
  using assms
proof (induction reqs arbitrary: e g)
  case Nil
  then show ?case by simp
next
  case (Cons r reqs)
  obtain r1 e1 g1 where s: "process_request e end_time r g = (r1, e1, g1)"
    by (cases "process_request e end_time r g")
  from Cons.prems(1) have k: "document_type r \<in> set doc_types"
    and ks: "\<forall>r \<in> set reqs. document_type r \<in> set doc_types" by simp_all
  from process_request_served [OF k s] have r1: "r1 = Inr ()"
    and step: "if served e end_time r
         then \<exists>r'. stamped_copy r r' \<and> completed e1 = completed e @ [r']
         else completed e1 = completed e" by simp_all
  from process_request_advances [OF s] have adv: "advances e e1" .
  from s r1 Cons.prems(2) have "process_requests e1 end_time reqs g1 = (res, e', g')" by simp
  from Cons.IH [OF ks this] obtain new where res: "res = Inr ()"
    and c: "completed e' = completed e1 @ new"
    and l: "list_all2 stamped_copy (filter (served e1 end_time) reqs) new" by blast
  have "filter (served e1 end_time) reqs = filter (served e end_time) reqs"
    by (rule filter_cong) (simp_all add: served_advances [OF adv])
  with l have l': "list_all2 stamped_copy (filter (served e end_time) reqs) new" by simp
  show ?case
  proof (cases "served e end_time r")
    case True
    with step obtain r' where "stamped_copy r r'" "completed e1 = completed e @ [r']" by auto
    with c l' True have "completed e' = completed e @ (r' # new)
        \<and> list_all2 stamped_copy (filter (served e end_time) (r # reqs)) (r' # new)" by simp
    with res show ?thesis by blast
  next
    case False
    with step c l' res show ?thesis by auto
  qed
qed

lemma process_requests_append:
  "process_requests e end_time (xs @ ys) g =
     (case process_requests e end_time xs g of
        (Inl err, e1, g1) \<Rightarrow> (Inl err, e1, g1)
      | (Inr u, e1, g1) \<Rightarrow> process_requests e1 end_time ys g1)"
  by (induction xs arbitrary: e g) (auto split: prod.splits sum.splits)

lemma process_requests_single:
  "process_request e end_time r g = (Inr (), e1, g1) \<Longrightarrow>
     process_requests e end_time [r] g = (Inr (), e1, g1)"
  by simp

lemma doc_complexity_known:
  "map_of DOCUMENT_COMPLEXITY (document_type r) = Some c \<Longrightarrow> doc_complexity r = c"
  by (simp add: doc_complexity_def dict_get_def)

lemma process_requests_visit:
  assumes known: "\<forall>r \<in> set reqs. document_type r \<in> set doc_types"
    and k: "k < length reqs"
    and h: "submission_time (reqs ! k) \<le> end_time"
    and pre: "process_requests e end_time (take k reqs) g = (res_k, e_k, g_k)"
  shows "res_k = Inr ()
     \<and> candidate_list (allocator e_k) (staff_pool e_k) (reqs ! k)
         = candidate_list (allocator e) (staff_pool e) (reqs ! k)
     \<and> (case assign (allocator e_k) (staff_pool e_k) (reqs ! k) (submission_time (reqs ! k)) g_k of
          (None, g1) \<Rightarrow>
            candidate_list (allocator e) (staff_pool e) (reqs ! k) = []
            \<and> process_requests e end_time (take (Suc k) reqs) g = (Inr (), e_k, g1)
        | (Some i, g1) \<Rightarrow>
            i \<in> set (candidate_list (allocator e) (staff_pool e) (reqs ! k))
            \<and> (let s = staff_pool e_k ! i;
                    atime = max (submission_time (reqs ! k)) (next_available_time s);
                    pt = timedelta_minutes (fst (random_uniform
                           (doc_complexity (reqs ! k) * 3 * 0.8)
                           (doc_complexity (reqs ! k) * 3 * 1.2) g1))
                in process_requests e end_time (take (Suc k) reqs) g =
                     (Inr (),
                      e_k\<lparr>staff_pool := (staff_pool e_k)[i := assign_request s atime pt],
                          completed := completed e_k @
                            [(reqs ! k)\<lparr>assignment_time := Some atime,
                                       assigned_staff := Some (staff_id s),
                                       completion_time := Some (atime + pt)\<rparr>]\<rparr>,
                      snd (random_uniform
                           (doc_complexity (reqs ! k) * 3 * 0.8)
                           (doc_complexity (reqs ! k) * 3 * 1.2) g1))))"
proof -
  let ?r = "reqs ! k"
  have "\<forall>r \<in> set (take k reqs). document_type r \<in> set doc_types"
    using known by (auto dest: in_set_takeD)
  from process_requests_served [OF this pre] have res: "res_k = Inr ()" by simp
  from process_requests_advances [OF pre] have adv: "advances e e_k" .
  then have cl: "candidate_list (allocator e_k) (staff_pool e_k) ?r
         = candidate_list (allocator e) (staff_pool e) ?r"
    by (rule candidate_list_advances)
  from known k have "document_type ?r \<in> set doc_types" by simp
  from doc_types_known [OF this] obtain c where
    c: "map_of DOCUMENT_COMPLEXITY (document_type ?r) = Some c" by blast
  then have dc: "doc_complexity ?r = c" by (rule doc_complexity_known)
  have t: "take (Suc k) reqs = take k reqs @ [?r]"
    using k by (rule take_Suc_conv_app_nth)
  have seq: "process_requests e end_time (take (Suc k) reqs) g
      = (case process_request e_k end_time ?r g_k of
           (Inl err, e', g') \<Rightarrow> (Inl err, e', g')
         | (Inr u, e', g') \<Rightarrow> (Inr (), e', g'))"
    by (simp add: t process_requests_append pre res split: prod.splits sum.splits)
  obtain st g1 where a: "assign (allocator e_k) (staff_pool e_k) ?r (submission_time ?r) g_k = (st, g1)"
    by (cases "assign (allocator e_k) (staff_pool e_k) ?r (submission_time ?r) g_k")
  note o = process_request_outcome [OF h c, of e_k "\<lambda>s. 0" g_k]
  show ?thesis
  proof (cases st)
    case None
    with o a have "candidate_list (allocator e_k) (staff_pool e_k) ?r = []"
      and "process_request e_k end_time ?r g_k = (Inr (), e_k, g1)" by simp_all
    with res cl a None seq show ?thesis by simp
  next
    case (Some i)
    with o a have "i \<in> set (candidate_list (allocator e_k) (staff_pool e_k) ?r)"
      and "process_request e_k end_time ?r g_k =
             (Inr (),
              e_k\<lparr>staff_pool := (staff_pool e_k)[i := assign_request (staff_pool e_k ! i)
                     (max (submission_time ?r) (next_available_time (staff_pool e_k ! i)))
                     (timedelta_minutes (fst (random_uniform (c * 3 * 0.8) (c * 3 * 1.2) g1)))],
                  completed := completed e_k @
                    [?r\<lparr>assignment_time :=
                           Some (max (submission_time ?r) (next_available_time (staff_pool e_k ! i))),
                         assigned_staff := Some (staff_id (staff_pool e_k ! i)),
                         completion_time :=
                           Some (max (submission_time ?r) (next_available_time (staff_pool e_k ! i))
                             + timedelta_minutes
                                 (fst (random_uniform (c * 3 * 0.8) (c * 3 * 1.2) g1)))\<rparr>]\<rparr>,
              snd (random_uniform (c * 3 * 0.8) (c * 3 * 1.2) g1))"
      by (simp_all add: Let_def)
    with res cl a Some seq dc show ?thesis by (simp add: Let_def)
  qed
qed

lemma colleges_of_nonempty: "colleges_of scen \<noteq> []"
  by (simp add: colleges_of_def COLLEGES_def)

lemma process_and_report_engine:
  "fst (snd (process_and_report e end_time d reqs g)) = fst (snd (process_requests e end_time reqs g))"
  by (simp add: process_and_report_def split: prod.splits sum.splits)

lemma score_all_doc_types:
  "\<forall>r \<in> set reqs. document_type r \<in> set doc_types \<Longrightarrow>
   \<forall>r \<in> set (score_all st reqs). document_type r \<in> set doc_types"
  by (auto simp: score_all_def snd_calculate_priority)

lemma run_served:
  assumes sch: "scheduler_type e = ''FCFS'' \<or> scheduler_type e = ''WEIGHTED''"
    and idx: "scen = ''staff_absence'' \<longrightarrow> 2 < length (staff_pool e)"
  shows "(let e1 = fst (snd (generate_requests e scen d g));
              g1 = snd (snd (generate_requests e scen d g));
              requests = (case fst (generate_requests e scen d g) of
                            Inr rs \<Rightarrow> rs | Inl err \<Rightarrow> []);
              batch = (if scheduler_type e1 = ''FCFS''
                       then sort_key submission_time requests
                       else sort_key (\<lambda>r. - priority_score r)
                              (score_all (start_time e1) requests));
              horizon = start_time e1 + timedelta_minutes (of_int d);
              e' = fst (snd (run e scen d g))
          in e' = fst (snd (process_requests e1 horizon batch g1))
             \<and> (\<exists>new. completed e' = completed e @ new
                   \<and> list_all2 stamped_copy (filter (served e1 horizon) batch) new))"
proof -
  obtain r0 e1 g1 where gen: "generate_requests e scen d g = (r0, e1, g1)"
    by (cases "generate_requests e scen d g")
  let ?rs = "fst (make_requests (start_time e) d (total_requests_of scen) (colleges_of scen)
                  (urgency_range_of scen) [0..<total_requests_of scen] g)"
  from generate_requests_result [of e scen d g] gen idx have r0: "r0 = Inr ?rs" by auto
  from generate_requests_engine [of e scen d g] gen
  have s1: "scheduler_type e1 = scheduler_type e" and c1: "completed e1 = completed e"
    by (auto split: if_splits)
  have krs: "\<forall>r \<in> set ?rs. document_type r \<in> set doc_types"
    using make_requests_fields [OF colleges_of_nonempty] by blast
  let ?batch = "if scheduler_type e1 = ''FCFS''
                then sort_key submission_time ?rs
                else sort_key (\<lambda>r. - priority_score r) (score_all (start_time e1) ?rs)"
  let ?h = "start_time e1 + timedelta_minutes (of_int d)"
  have kb: "\<forall>r \<in> set ?batch. document_type r \<in> set doc_types"
    using krs score_all_doc_types [OF krs, of "start_time e1"] by simp
  have run: "run e scen d g = process_and_report e1 ?h d ?batch g1"
    using sch s1 by (auto simp: run_def gen r0 Let_def)
  then have e': "fst (snd (run e scen d g)) = fst (snd (process_requests e1 ?h ?batch g1))"
    by (simp add: process_and_report_engine)
  obtain res e2 g2 where p: "process_requests e1 ?h ?batch g1 = (res, e2, g2)"
    by (cases "process_requests e1 ?h ?batch g1")
  from process_requests_served [OF kb p] c1
  have "\<exists>new. completed e2 = completed e @ new
          \<and> list_all2 stamped_copy (filter (served e1 ?h) ?batch) new" by simp
  with e' p show ?thesis by (simp add: gen r0 Let_def)
qed

text \<open>
  Claim C5. On any batch of requests of known document types (every generated request is one),
  the loop of \<^verbatim>\<open>run\<close> does not raise, and it appends to the completed list exactly the requests
  of the batch that are within the horizon and for which the allocator has a candidate on the
  roster, in the order visited, each with its three outcome fields written and nothing else
  changed. So a request within the horizon is dropped only when its candidate list is empty.
  That list is the same when the loop reaches the request as at the start of the loop, whatever
  was assigned before. When the loop reaches a request within the horizon, the allocator
  returns none exactly when the list is empty, and the visit changes nothing; otherwise the
  request is appended with \<open>assignment_time = max submission_time next_available_time\<close> of the
  returned member, whether or not that member is busy at submission time. A run with a known
  scheduler kind leaves the engine that this loop leaves on the sorted batch of the generated
  requests.
\<close>

theorem driver_drops_only_without_candidate:
  "((\<forall>r \<in> set reqs. document_type r \<in> set doc_types) \<longrightarrow>
      (let (res, e', g') = process_requests e end_time reqs g
       in res = Inr ()
          \<and> (\<exists>new. completed e' = completed e @ new
                \<and> list_all2 stamped_copy (filter (served e end_time) reqs) new))
      \<and> (\<forall>k < length reqs. submission_time (reqs ! k) \<le> end_time \<longrightarrow>
            (let (res_k, e_k, g_k) = process_requests e end_time (take k reqs) g
             in res_k = Inr ()
                \<and> candidate_list (allocator e_k) (staff_pool e_k) (reqs ! k)
                    = candidate_list (allocator e) (staff_pool e) (reqs ! k)
                \<and> (case assign (allocator e_k) (staff_pool e_k) (reqs ! k)
                           (submission_time (reqs ! k)) g_k of
                     (None, g1) \<Rightarrow>
                       candidate_list (allocator e) (staff_pool e) (reqs ! k) = []
                       \<and> process_requests e end_time (take (Suc k) reqs) g = (Inr (), e_k, g1)
                   | (Some i, g1) \<Rightarrow>
                       i \<in> set (candidate_list (allocator e) (staff_pool e) (reqs ! k))
                       \<and> (let s = staff_pool e_k ! i;
                               atime = max (submission_time (reqs ! k)) (next_available_time s);
                               pt = timedelta_minutes (fst (random_uniform
                                      (doc_complexity (reqs ! k) * 3 * 0.8)
                                      (doc_complexity (reqs ! k) * 3 * 1.2) g1))
                           in process_requests e end_time (take (Suc k) reqs) g =
                                (Inr (),
                                 e_k\<lparr>staff_pool :=
                                       (staff_pool e_k)[i := assign_request s atime pt],
                                     completed := completed e_k @
                                       [(reqs ! k)\<lparr>assignment_time := Some atime,
                                                  assigned_staff := Some (staff_id s),
                                                  completion_time := Some (atime + pt)\<rparr>]\<rparr>,
                                 snd (random_uniform
                                      (doc_complexity (reqs ! k) * 3 * 0.8)
                                      (doc_complexity (reqs ! k) * 3 * 1.2) g1)))))))
   \<and> ((scheduler_type e = ''FCFS'' \<or> scheduler_type e = ''WEIGHTED'')
        \<and> (scen = ''staff_absence'' \<longrightarrow> 2 < length (staff_pool e)) \<longrightarrow>
        (let e1 = fst (snd (generate_requests e scen d g));
             g1 = snd (snd (generate_requests e scen d g));
             requests = (case fst (generate_requests e scen d g) of
                           Inr rs \<Rightarrow> rs | Inl err \<Rightarrow> []);
             batch = (if scheduler_type e1 = ''FCFS''
                      then sort_key submission_time requests
                      else sort_key (\<lambda>r. - priority_score r)
                             (score_all (start_time e1) requests));
             horizon = start_time e1 + timedelta_minutes (of_int d);
             e' = fst (snd (run e scen d g))
         in e' = fst (snd (process_requests e1 horizon batch g1))
            \<and> (\<exists>new. completed e' = completed e @ new
                  \<and> list_all2 stamped_copy (filter (served e1 horizon) batch) new)))"
proof -
  have A: "(let (res, e', g') = process_requests e end_time reqs g
       in res = Inr ()
          \<and> (\<exists>new. completed e' = completed e @ new
                \<and> list_all2 stamped_copy (filter (served e end_time) reqs) new))"
    if "\<forall>r \<in> set reqs. document_type r \<in> set doc_types"
  proof -
    obtain res e' g' where p: "process_requests e end_time reqs g = (res, e', g')"
      by (cases "process_requests e end_time reqs g")
    from process_requests_served [OF that p] p show ?thesis by simp
  qed
  have B: "(let (res_k, e_k, g_k) = process_requests e end_time (take k reqs) g
             in res_k = Inr ()
                \<and> candidate_list (allocator e_k) (staff_pool e_k) (reqs ! k)
                    = candidate_list (allocator e) (staff_pool e) (reqs ! k)
                \<and> (case assign (allocator e_k) (staff_pool e_k) (reqs ! k)
                           (submission_time (reqs ! k)) g_k of
                     (None, g1) \<Rightarrow>
                       candidate_list (allocator e) (staff_pool e) (reqs ! k) = []
                       \<and> process_requests e end_time (take (Suc k) reqs) g = (Inr (), e_k, g1)
                   | (Some i, g1) \<Rightarrow>
                       i \<in> set (candidate_list (allocator e) (staff_pool e) (reqs ! k))
                       \<and> (let s = staff_pool e_k ! i;
                               atime = max (submission_time (reqs ! k)) (next_available_time s);
                               pt = timedelta_minutes (fst (random_uniform
                                      (doc_complexity (reqs ! k) * 3 * 0.8)
                                      (doc_complexity (reqs ! k) * 3 * 1.2) g1))
                           in process_requests e end_time (take (Suc k) reqs) g =
                                (Inr (),
                                 e_k\<lparr>staff_pool :=
                                       (staff_pool e_k)[i := assign_request s atime pt],
                                     completed := completed e_k @
                                       [(reqs ! k)\<lparr>assignment_time := Some atime,
                                                  assigned_staff := Some (staff_id s),
                                                  completion_time := Some (atime + pt)\<rparr>]\<rparr>,
                                 snd (random_uniform
                                      (doc_complexity (reqs ! k) * 3 * 0.8)
                                      (doc_complexity (reqs ! k) * 3 * 1.2) g1)))))"
    if "\<forall>r \<in> set reqs. document_type r \<in> set doc_types" and "k < length reqs"
      and "submission_time (reqs ! k) \<le> end_time" for k
  proof -
    obtain res_k e_k g_k where p: "process_requests e end_time (take k reqs) g = (res_k, e_k, g_k)"
      by (cases "process_requests e end_time (take k reqs) g")
    from process_requests_visit [OF that p] show ?thesis by (simp only: p split_conv Let_def)
  qed
  note C = run_served [of e scen d g]
  from A B C show ?thesis by blast
qed

text \<open>
  Claim C5 on a college-based engine as generation in scenario \<^verbatim>\<open>staff_absence\<close> leaves it,
  all members busy until time 100, with the horizon at 10 and a batch of two requests submitted
  at time 0: the request of college CBA has no candidate and is dropped, the request of college
  COE is assigned to the busy first member at time 100. Then the statement about \<^verbatim>\<open>run\<close> on a
  new engine, scenario \<^verbatim>\<open>baseline\<close>.
\<close>

theorem driver_drops_only_without_candidate_witness:
  "candidate_list (allocator (fst (snd (generate_requests
      (engine_init ''FCFS'' ''college_based'' (\<lambda>k. 100))
        ''staff_absence'' 60 (\<lambda>k. 0))))) (staff_pool (fst (snd (generate_requests
            (engine_init ''FCFS'' ''college_based'' (\<lambda>k. 100))
        ''staff_absence'' 60 (\<lambda>k. 0)))))
      \<lparr>request_id = ''REQ0000'', college = ''CBA'', document_type = ''Certification'',
        urgency = 5, requester_type = ''Alumni'', submission_time = 0,
        priority_score = 0, assignment_time = None, completion_time = None,
        assigned_staff = None\<rparr> = []
   \<and> candidate_list (allocator (fst (snd (generate_requests
       (engine_init ''FCFS'' ''college_based'' (\<lambda>k. 100))
        ''staff_absence'' 60 (\<lambda>k. 0))))) (staff_pool (fst (snd (generate_requests
            (engine_init ''FCFS'' ''college_based'' (\<lambda>k. 100))
        ''staff_absence'' 60 (\<lambda>k. 0)))))
      \<lparr>request_id = ''REQ0001'', college = ''COE'',
        document_type = ''Certificate of Enrollment'',
        urgency = 5, requester_type = ''Faculty'', submission_time = 0,
        priority_score = 0, assignment_time = None, completion_time = None,
        assigned_staff = None\<rparr> = [0]
   \<and> submission_time \<lparr>request_id = ''REQ0001'', college = ''COE'',
        document_type = ''Certificate of Enrollment'',
        urgency = 5, requester_type = ''Faculty'', submission_time = 0,
        priority_score = 0, assignment_time = None, completion_time = None,
        assigned_staff = None\<rparr>
       < next_available_time (staff_pool (fst (snd (generate_requests
           (engine_init ''FCFS'' ''college_based'' (\<lambda>k. 100))
        ''staff_absence'' 60 (\<lambda>k. 0)))) ! 0)
   \<and> fst (process_requests (fst (snd (generate_requests
       (engine_init ''FCFS'' ''college_based'' (\<lambda>k. 100))
        ''staff_absence'' 60 (\<lambda>k. 0)))) 10
          [\<lparr>request_id = ''REQ0000'', college = ''CBA'', document_type = ''Certification'',
        urgency = 5, requester_type = ''Alumni'', submission_time = 0,
        priority_score = 0, assignment_time = None, completion_time = None,
        assigned_staff = None\<rparr>,
           \<lparr>request_id = ''REQ0001'', college = ''COE'',
        document_type = ''Certificate of Enrollment'',
        urgency = 5, requester_type = ''Faculty'', submission_time = 0,
        priority_score = 0, assignment_time = None, completion_time = None,
        assigned_staff = None\<rparr>] (\<lambda>k. 0)) = Inr ()
   \<and> map (\<lambda>r. (request_id r, assignment_time r, assigned_staff r))
       (completed (fst (snd (process_requests (fst (snd (generate_requests
           (engine_init ''FCFS'' ''college_based'' (\<lambda>k. 100))
        ''staff_absence'' 60 (\<lambda>k. 0)))) 10
          [\<lparr>request_id = ''REQ0000'', college = ''CBA'', document_type = ''Certification'',
        urgency = 5, requester_type = ''Alumni'', submission_time = 0,
        priority_score = 0, assignment_time = None, completion_time = None,
        assigned_staff = None\<rparr>,
           \<lparr>request_id = ''REQ0001'', college = ''COE'',
        document_type = ''Certificate of Enrollment'',
        urgency = 5, requester_type = ''Faculty'', submission_time = 0,
        priority_score = 0, assignment_time = None, completion_time = None,
        assigned_staff = None\<rparr>] (\<lambda>k. 0)))))
     = [(''REQ0001'', Some 100, Some ''STAFF001'')]
   \<and> (let e1 = fst (snd (generate_requests
                  (engine_init ''FCFS'' ''college_based'' (\<lambda>k. 100))
                  ''baseline'' 60 (\<lambda>k. 0)));
           g1 = snd (snd (generate_requests
                  (engine_init ''FCFS'' ''college_based'' (\<lambda>k. 100))
                  ''baseline'' 60 (\<lambda>k. 0)));
           requests = (case fst (generate_requests
                  (engine_init ''FCFS'' ''college_based'' (\<lambda>k. 100))
                  ''baseline'' 60 (\<lambda>k. 0)) of
                         Inr rs \<Rightarrow> rs | Inl err \<Rightarrow> []);
           batch = (if scheduler_type e1 = ''FCFS''
                    then sort_key submission_time requests
                    else sort_key (\<lambda>r. - priority_score r)
                           (score_all (start_time e1) requests));
           horizon = start_time e1 + timedelta_minutes (of_int 60);
           e' = fst (snd (run (engine_init ''FCFS'' ''college_based'' (\<lambda>k. 100))
                  ''baseline'' 60 (\<lambda>k. 0)))
       in e' = fst (snd (process_requests e1 horizon batch g1))
          \<and> (\<exists>new. completed e' = completed
              (engine_init ''FCFS'' ''college_based'' (\<lambda>k. 100))
                          @ new
                \<and> list_all2 stamped_copy (filter (served e1 horizon) batch) new))"
proof -
  let ?e = "(fst (snd (generate_requests (engine_init ''FCFS'' ''college_based'' (\<lambda>k. 100))
        ''staff_absence'' 60 (\<lambda>k. 0))))"
  let ?fresh = "engine_init ''FCFS'' ''college_based'' (\<lambda>k. 100)"
  let ?a = "\<lparr>request_id = ''REQ0000'', college = ''CBA'', document_type = ''Certification'',
        urgency = 5, requester_type = ''Alumni'', submission_time = 0,
        priority_score = 0, assignment_time = None, completion_time = None,
        assigned_staff = None\<rparr>"
  let ?b = "\<lparr>request_id = ''REQ0001'', college = ''COE'',
        document_type = ''Certificate of Enrollment'',
        urgency = 5, requester_type = ''Faculty'', submission_time = 0,
        priority_score = 0, assignment_time = None, completion_time = None,
        assigned_staff = None\<rparr>"
  have e: "?e = (engine_init ''FCFS'' ''college_based'' (\<lambda>k. 100))
      \<lparr>scenario := ''staff_absence'',
        staff_pool := (staff_pool (engine_init ''FCFS'' ''college_based'' (\<lambda>k. 100)))
          [2 := (staff_pool (engine_init ''FCFS'' ''college_based'' (\<lambda>k. 100)) ! 2)
                  \<lparr>is_available := False\<rparr>]\<rparr>"
    by (simp add: generate_requests_engine engine_init_roster)
  have k: "\<forall>r \<in> set [?a, ?b]. document_type r \<in> set doc_types"
    by (simp add: doc_types_def DOCUMENT_COMPLEXITY_def)
  have s: "scheduler_type ?fresh = ''FCFS''"
    by (simp add: engine_init_defs)
  note t = driver_drops_only_without_candidate
  from t [of "[?a, ?b]" ?e 10 "\<lambda>k. 0"] k
  have ok: "fst (process_requests ?e 10 [?a, ?b] (\<lambda>k. 0)) = Inr ()"
    by (simp only: split_def Let_def)
  have loop: "map (\<lambda>r. (request_id r, assignment_time r, assigned_staff r))
       (completed (fst (snd (process_requests ?e 10 [?a, ?b] (\<lambda>k. 0)))))
     = [(''REQ0001'', Some 100, Some ''STAFF001'')]"
    unfolding e
    by (simp add: engine_init_defs draw_defs DOCUMENT_COMPLEXITY_def CollegeBased_assign_def
        process_request_def staff_where_def Let_def assign_request_def)
  have c1: "candidate_list (allocator ?e) (staff_pool ?e) ?a = []"
    unfolding e by (simp add: engine_init_defs staff_where_def)
  have c2: "candidate_list (allocator ?e) (staff_pool ?e) ?b = [0]"
    unfolding e by (simp add: engine_init_defs staff_where_def)
  have b: "submission_time ?b < next_available_time (staff_pool ?e ! 0)"
    unfolding e by (simp add: engine_init_defs)
  from t [of "[]" ?fresh 0 "\<lambda>k. 0" "''baseline''" 60] s
  have r: "(let e1 = fst (snd (generate_requests ?fresh ''baseline'' 60 (\<lambda>k. 0)));
           g1 = snd (snd (generate_requests ?fresh ''baseline'' 60 (\<lambda>k. 0)));
           requests = (case fst (generate_requests ?fresh ''baseline'' 60 (\<lambda>k. 0)) of
                         Inr rs \<Rightarrow> rs | Inl err \<Rightarrow> []);
           batch = (if scheduler_type e1 = ''FCFS''
                    then sort_key submission_time requests
                    else sort_key (\<lambda>r. - priority_score r)
                           (score_all (start_time e1) requests));
           horizon = start_time e1 + timedelta_minutes (of_int 60);
           e' = fst (snd (run ?fresh ''baseline'' 60 (\<lambda>k. 0)))
       in e' = fst (snd (process_requests e1 horizon batch g1))
          \<and> (\<exists>new. completed e' = completed ?fresh @ new
                \<and> list_all2 stamped_copy (filter (served e1 horizon) batch) new))"
    by simp
  from c1 c2 b ok loop r show ?thesis by blast
qed

end
